theory Spec2Isabelle
  imports Complex_Main "HOL-Library.AList" "HOL-Library.Log_Nat"
begin

section \<open>Python values and exceptions\<close>

text \<open>
  The collectors work on loosely typed JSON payloads and on Python dictionaries. A Python
  value is modelled by \<open>pyval\<close>; a dictionary is an association list in which the first
  binding of a key is the dictionary's entry. Python strings are \<open>string\<close>s whose
  characters stand for code points below 256; a float held in a payload is the exact
  rational it stands for (the adapters convert and store it, they do not compute with it).
  An exception is a value of type \<open>exn\<close>: every constructor is a subclass of Python's
  \<open>Exception\<close>, and the string is the text that \<open>str(e)\<close> gives.
\<close>

datatype exn =
    ValueError string
  | TypeError string
  | AttributeError string
  | KeyError string
  | ZeroDivisionError string
  | RequestException string

fun exn_str :: "exn \<Rightarrow> string" where
  "exn_str (ValueError m) = m"
| "exn_str (TypeError m) = m"
| "exn_str (AttributeError m) = m"
| "exn_str (KeyError m) = m"
| "exn_str (ZeroDivisionError m) = m"
| "exn_str (RequestException m) = m"

fun is_ValueError :: "exn \<Rightarrow> bool" where
  "is_ValueError (ValueError m) = True"
| "is_ValueError _ = False"

datatype pyval =
    PNone
  | PBool bool
  | PInt int
  | PFloat rat
  | PStr string
  | PList "pyval list"
  | PDict "(string \<times> pyval) list"

section \<open>String methods\<close>

text \<open>
  \<open>str.strip()\<close> removes leading and trailing whitespace; the whitespace code points
  below 256 are 9 to 13, 28 to 32, 133 and 160. \<open>str.upper()\<close> and \<open>str.lower()\<close> are
  modelled on the ASCII letters; other characters are left as they are.
\<close>

definition py_isspace :: "char \<Rightarrow> bool" where
  "py_isspace c = ((of_char c :: nat) \<in> {9, 10, 11, 12, 13, 28, 29, 30, 31, 32, 133, 160})"

definition py_strip :: "string \<Rightarrow> string" where
  "py_strip s = rev (dropWhile py_isspace (rev (dropWhile py_isspace s)))"

definition upper_char :: "char \<Rightarrow> char" where
  "upper_char c =
     (let n = (of_char c :: nat) in if 97 \<le> n \<and> n \<le> 122 then char_of (n - 32) else c)"

definition lower_char :: "char \<Rightarrow> char" where
  "lower_char c =
     (let n = (of_char c :: nat) in if 65 \<le> n \<and> n \<le> 90 then char_of (n + 32) else c)"

definition py_upper :: "string \<Rightarrow> string" where
  "py_upper s = map upper_char s"

definition py_lower :: "string \<Rightarrow> string" where
  "py_lower s = map lower_char s"

section \<open>Country profiles (utils/country\_profiles.py)\<close>

text \<open>
  A profile has the shape the module's docstring gives. The table is what
  \<open>load_profiles\<close> returns (the parsed YAML file, or the empty list when the file is
  missing); it is a parameter of the lookups.
\<close>

record profile =
  country_code :: string
  name :: string
  fiat :: string
  stablecoins :: "string list"
  expected_payment_methods :: "string list"
  exchange_rate_sources :: "string list"
  p2p_platforms :: "string list"
  start_date :: string
  profile_notes :: string

fun code_search :: "string \<Rightarrow> profile list \<Rightarrow> profile option" where
  "code_search search_code [] = None"
| "code_search search_code (p # ps) =
     (if py_upper (profile.country_code p) = search_code then Some p
      else code_search search_code ps)"

definition get_profile_by_country_code :: "profile list \<Rightarrow> string \<Rightarrow> exn + profile" where
  "get_profile_by_country_code profiles code =
     (let search_code = py_upper (py_strip code) in
      case code_search search_code profiles of
        Some p \<Rightarrow> Inr p
      | None \<Rightarrow> Inl (ValueError (''No profile found for country code: '' @ code)))"

fun name_search :: "string \<Rightarrow> profile list \<Rightarrow> profile option" where
  "name_search search_name [] = None"
| "name_search search_name (p # ps) =
     (if py_lower (profile.name p) = search_name then Some p
      else name_search search_name ps)"

definition get_profile_by_country_name :: "profile list \<Rightarrow> string \<Rightarrow> exn + profile" where
  "get_profile_by_country_name profiles nm =
     (let search_name = py_lower (py_strip nm) in
      case name_search search_name profiles of
        Some p \<Rightarrow> Inr p
      | None \<Rightarrow> Inl (ValueError (''No profile found for country name: '' @ nm)))"

definition list_supported_countries :: "profile list \<Rightarrow> profile list" where
  "list_supported_countries profiles = profiles"

text \<open>The profile a lookup returned, when it returned one.\<close>

definition found :: "exn + profile \<Rightarrow> profile option" where
  "found r = (case r of Inl e \<Rightarrow> None | Inr p \<Rightarrow> Some p)"

section \<open>Builtins on Python values\<close>

text \<open>
  Sequencing of computations that may raise: the first exception ends the computation.
\<close>

definition and_then :: "exn + 'a \<Rightarrow> ('a \<Rightarrow> exn + 'b) \<Rightarrow> exn + 'b" where
  "and_then m f = (case m of Inl e \<Rightarrow> Inl e | Inr x \<Rightarrow> f x)"

primrec map_exn :: "('a \<Rightarrow> exn + 'b) \<Rightarrow> 'a list \<Rightarrow> exn + 'b list" where
  "map_exn f [] = Inr []"
| "map_exn f (x # xs) =
     and_then (f x) (\<lambda>y. and_then (map_exn f xs) (\<lambda>ys. Inr (y # ys)))"

text \<open>
  The conversions of text to numbers and of a float to its text are the interpreter's;
  they are parameters of the model, so that every result holds whatever they accept.
\<close>

record builtins =
  str_to_float :: "string \<Rightarrow> rat option"
  str_to_int :: "string \<Rightarrow> int option"
  float_repr :: "rat \<Rightarrow> string"

fun py_truthy :: "pyval \<Rightarrow> bool" where
  "py_truthy PNone = False"
| "py_truthy (PBool b) = b"
| "py_truthy (PInt i) = (i \<noteq> 0)"
| "py_truthy (PFloat q) = (q \<noteq> 0)"
| "py_truthy (PStr s) = (s \<noteq> [])"
| "py_truthy (PList xs) = (xs \<noteq> [])"
| "py_truthy (PDict kvs) = (kvs \<noteq> [])"

text \<open>\<open>d.get(key, default)\<close>: only a dictionary has the method.\<close>

fun py_get :: "pyval \<Rightarrow> string \<Rightarrow> pyval \<Rightarrow> exn + pyval" where
  "py_get (PDict kvs) key dflt = Inr (case map_of kvs key of Some v \<Rightarrow> v | None \<Rightarrow> dflt)"
| "py_get v key dflt = Inl (AttributeError ''object has no attribute get'')"

text \<open>\<open>d[key]\<close> on a dictionary.\<close>

fun py_item :: "pyval \<Rightarrow> string \<Rightarrow> exn + pyval" where
  "py_item (PDict kvs) key =
     (case map_of kvs key of Some v \<Rightarrow> Inr v | None \<Rightarrow> Inl (KeyError key))"
| "py_item v key = Inl (TypeError ''object is not subscriptable with a string'')"

text \<open>
  The elements a \<open>for\<close> loop sees: a list's elements, a dictionary's keys, a string's
  characters; other values are not iterable.
\<close>

fun py_iter :: "pyval \<Rightarrow> exn + pyval list" where
  "py_iter (PList xs) = Inr xs"
| "py_iter (PDict kvs) = Inr (map PStr (remdups (map fst kvs)))"
| "py_iter (PStr s) = Inr (map (\<lambda>c. PStr [c]) s)"
| "py_iter v = Inl (TypeError ''object is not iterable'')"

fun py_float :: "builtins \<Rightarrow> pyval \<Rightarrow> exn + rat" where
  "py_float B (PFloat q) = Inr q"
| "py_float B (PInt i) = Inr (of_int i)"
| "py_float B (PBool b) = Inr (if b then 1 else 0)"
| "py_float B (PStr s) =
     (case str_to_float B s of
        Some q \<Rightarrow> Inr q
      | None \<Rightarrow> Inl (ValueError (''could not convert string to float: '' @ s)))"
| "py_float B v = Inl (TypeError ''float() argument must be a string or a real number'')"

fun py_int :: "builtins \<Rightarrow> pyval \<Rightarrow> exn + int" where
  "py_int B (PInt i) = Inr i"
| "py_int B (PBool b) = Inr (if b then 1 else 0)"
| "py_int B (PFloat q) = Inr (if 0 \<le> q then \<lfloor>q\<rfloor> else \<lceil>q\<rceil>)"
| "py_int B (PStr s) =
     (case str_to_int B s of
        Some i \<Rightarrow> Inr i
      | None \<Rightarrow> Inl (ValueError (''invalid literal for int() with base 10: '' @ s)))"
| "py_int B v = Inl (TypeError ''int() argument must be a string or a real number'')"

section \<open>JSON text (json.dumps)\<close>

text \<open>
  \<open>json.dumps\<close> with its defaults: items separated by a comma and a space, keys from
  values by a colon and a space, and every character outside the printable ASCII range
  escaped (\<open>ensure_ascii\<close>).
\<close>

definition hex_digit :: "nat \<Rightarrow> char" where
  "hex_digit n = (if n < 10 then char_of (48 + n) else char_of (87 + n))"

definition escape_char :: "char \<Rightarrow> string" where
  "escape_char c =
     (let n = (of_char c :: nat) in
      if n = 34 then [CHR 0x5C, CHR 0x22]
      else if n = 92 then [CHR 0x5C, CHR 0x5C]
      else if n = 10 then [CHR 0x5C, CHR ''n'']
      else if n = 13 then [CHR 0x5C, CHR ''r'']
      else if n = 9 then [CHR 0x5C, CHR ''t'']
      else if n = 12 then [CHR 0x5C, CHR ''f'']
      else if n = 8 then [CHR 0x5C, CHR ''b'']
      else if n < 32 \<or> 126 < n then
        [CHR 0x5C, CHR ''u'', CHR ''0'', CHR ''0'', hex_digit (n div 16), hex_digit (n mod 16)]
      else [c])"

definition json_string :: "string \<Rightarrow> string" where
  "json_string s = [CHR 0x22] @ concat (map escape_char s) @ [CHR 0x22]"

fun join :: "string \<Rightarrow> string list \<Rightarrow> string" where
  "join sep [] = []"
| "join sep [x] = x"
| "join sep (x # y # ys) = x @ sep @ join sep (y # ys)"

fun nat_digits :: "nat \<Rightarrow> string" where
  "nat_digits n =
     (if n < 10 then [char_of (48 + n)] else nat_digits (n div 10) @ [char_of (48 + n mod 10)])"

definition int_repr :: "int \<Rightarrow> string" where
  "int_repr i = (if i < 0 then CHR ''-'' # nat_digits (nat (- i)) else nat_digits (nat i))"

fun json_dumps :: "builtins \<Rightarrow> pyval \<Rightarrow> string" where
  "json_dumps B PNone = ''null''"
| "json_dumps B (PBool b) = (if b then ''true'' else ''false'')"
| "json_dumps B (PInt i) = int_repr i"
| "json_dumps B (PFloat q) = float_repr B q"
| "json_dumps B (PStr s) = json_string s"
| "json_dumps B (PList xs) = ''['' @ join '', '' (map (json_dumps B) xs) @ '']''"
| "json_dumps B (PDict kvs) =
     ''{'' @ join '', '' (map (\<lambda>kv. json_string (fst kv) @ '': '' @ json_dumps B (snd kv)) kvs)
       @ ''}''"

section \<open>Advertisements and the CSV store (utils/csv\_data\_manager.py)\<close>

text \<open>
  A standardized advertisement is the dictionary that \<open>standardize_ad\<close> builds. Fields
  copied from the payload keep whatever value the payload had; \<open>payment_methods\<close> is a
  list at creation and may later hold text. \<open>collection_id\<close> is \<open>None\<close> while the
  dictionary has no such key.
\<close>

record ad =
  platform :: string
  timestamp :: string
  asset :: pyval
  fiat :: pyval
  price :: rat
  min_amount :: rat
  max_amount :: rat
  available_amount :: rat
  trade_type :: string
  country_code :: string
  payment_methods :: pyval
  advertiser_name :: pyval
  completion_rate :: rat
  order_count :: int
  ad_id :: pyval
  premium_pct :: "rat option"
  collection_id :: "string option"

record log_entry =
  collection_id :: string
  timestamp :: string
  platform :: string
  country_code :: string
  country_name :: string
  fiat_currency :: string
  ads_collected :: nat
  buy_ads :: nat
  sell_ads :: nat
  status :: string
  error_message :: string

text \<open>
  The store's files: each raw file holds the rows last written to it, the collection log
  grows by appending. \<open>today\<close> is the date of the save; \<open>clock_compact\<close> and
  \<open>clock_iso\<close> are the time of \<open>datetime.now()\<close> in the format of the collection
  identifiers and in ISO format.
\<close>

record csv_store =
  raw_files :: "string \<rightharpoonup> ad list"
  collection_log :: "log_entry list"
  today :: string
  clock_compact :: string
  clock_iso :: string

definition generate_collection_id :: "csv_store \<Rightarrow> string" where
  "generate_collection_id store = ''collection_'' @ clock_compact store"

text \<open>
  The loop of \<open>save_raw_ads\<close> over the caller's dictionaries: it writes
  \<open>collection_id\<close> into each and replaces a list of payment methods by its JSON text.
\<close>

definition mark_ad :: "builtins \<Rightarrow> string \<Rightarrow> ad \<Rightarrow> ad" where
  "mark_ad B cid a =
     (let a1 = a\<lparr>ad.collection_id := Some cid\<rparr> in
      case ad.payment_methods a1 of
        PList xs \<Rightarrow> a1\<lparr>ad.payment_methods := PStr (json_dumps B (PList xs))\<rparr>
      | _ \<Rightarrow> a1)"

text \<open>
  \<open>save_raw_ads\<close> returns the path; the model also returns the caller's dictionaries as
  the loop left them, and the store with the file written (an existing file of the same
  path is replaced). An absent or empty \<open>collection_id\<close> is generated.
\<close>

definition save_raw_ads ::
  "builtins \<Rightarrow> csv_store \<Rightarrow> ad list \<Rightarrow> string \<Rightarrow> string \<Rightarrow> string option
     \<Rightarrow> string \<times> ad list \<times> csv_store" where
  "save_raw_ads B store ads platform_name code collection =
     (let cid = (case collection of
                   None \<Rightarrow> generate_collection_id store
                 | Some c \<Rightarrow> if c = [] then generate_collection_id store else c);
          filename = platform_name @ ''_p2p_'' @ code @ ''_'' @ today store @ ''.csv'';
          filepath = today store @ ''/'' @ filename;
          ads' = map (mark_ad B cid) ads
      in (filepath, ads', store\<lparr>raw_files := (raw_files store)(filepath \<mapsto> ads')\<rparr>))"

definition log_collection_run ::
  "csv_store \<Rightarrow> string \<Rightarrow> string \<Rightarrow> string \<Rightarrow> string \<Rightarrow> nat \<Rightarrow> nat \<Rightarrow> nat
     \<Rightarrow> string \<Rightarrow> string \<Rightarrow> string option \<Rightarrow> csv_store" where
  "log_collection_run store platform_name code cname fiat_cur n_ads n_buy n_sell stat err collection =
     (let cid = (case collection of
                   None \<Rightarrow> generate_collection_id store
                 | Some c \<Rightarrow> if c = [] then generate_collection_id store else c);
          entry = \<lparr>log_entry.collection_id = cid,
                   log_entry.timestamp = clock_iso store,
                   log_entry.platform = platform_name,
                   log_entry.country_code = code,
                   country_name = cname,
                   fiat_currency = fiat_cur,
                   ads_collected = n_ads,
                   buy_ads = n_buy,
                   sell_ads = n_sell,
                   status = stat,
                   error_message = err\<rparr>
      in store\<lparr>collection_log := collection_log store @ [entry]\<rparr>)"

section \<open>Source adapters (scrapers/binance\_p2p.py, scrapers/platforms/okx\_p2p.py)\<close>

text \<open>
  \<open>standardize_ad\<close> evaluates the entries of its dictionary in order, so the first
  conversion that fails decides the exception. \<open>now\<close> is the text of
  \<open>datetime.utcnow().isoformat()\<close>.
\<close>

definition binance_standardize_ad ::
  "builtins \<Rightarrow> string \<Rightarrow> pyval \<Rightarrow> string \<Rightarrow> string \<Rightarrow> exn + ad" where
  "binance_standardize_ad B now ad_data code side =
     and_then (py_get ad_data ''adv'' (PDict [])) (\<lambda>adv.
     and_then (py_get ad_data ''advertiser'' (PDict [])) (\<lambda>advertiser.
     and_then (py_get adv ''asset'' (PStr [])) (\<lambda>v_asset.
     and_then (py_get adv ''fiatUnit'' (PStr [])) (\<lambda>v_fiat.
     and_then (and_then (py_get adv ''price'' (PInt 0)) (py_float B)) (\<lambda>v_price.
     and_then (and_then (py_get adv ''minSingleTransAmount'' (PInt 0)) (py_float B)) (\<lambda>v_min.
     and_then (and_then (py_get adv ''dynamicMaxSingleTransAmount'' (PInt 0)) (py_float B)) (\<lambda>v_max.
     and_then (and_then (py_get adv ''surplusAmount'' (PInt 0)) (py_float B)) (\<lambda>v_avail.
     and_then (and_then (and_then (py_get adv ''tradeMethods'' (PList [])) py_iter)
                 (map_exn (\<lambda>method. py_get method ''tradeMethodName'' (PStr [])))) (\<lambda>v_methods.
     and_then (py_get advertiser ''nickName'' (PStr [])) (\<lambda>v_name.
     and_then (and_then (py_get advertiser ''monthFinishRate'' (PInt 0)) (py_float B)) (\<lambda>v_rate.
     and_then (and_then (py_get advertiser ''monthOrderCount'' (PInt 0)) (py_int B)) (\<lambda>v_count.
     and_then (py_get adv ''advNo'' (PStr [])) (\<lambda>v_id.
       Inr \<lparr>ad.platform = ''binance'',
            ad.timestamp = now @ ''Z'',
            asset = v_asset,
            fiat = v_fiat,
            price = v_price,
            min_amount = v_min,
            max_amount = v_max,
            available_amount = v_avail,
            trade_type = side,
            ad.country_code = code,
            payment_methods = PList v_methods,
            advertiser_name = v_name,
            completion_rate = v_rate,
            order_count = v_count,
            ad_id = v_id,
            premium_pct = None,
            ad.collection_id = None\<rparr>)))))))))))))"

definition okx_standardize_ad ::
  "builtins \<Rightarrow> string \<Rightarrow> pyval \<Rightarrow> string \<Rightarrow> string \<Rightarrow> exn + ad" where
  "okx_standardize_ad B now ad_data code side =
     (let standard_trade_type = (if py_lower side = ''buy'' then ''BUY'' else ''SELL'') in
     and_then (py_get ad_data ''cryptoCurrency'' (PStr [])) (\<lambda>v_asset.
     and_then (py_get ad_data ''fiatCurrency'' (PStr [])) (\<lambda>v_fiat.
     and_then (and_then (py_get ad_data ''price'' (PInt 0)) (py_float B)) (\<lambda>v_price.
     and_then (and_then (py_get ad_data ''minQuoteAmount'' (PInt 0)) (py_float B)) (\<lambda>v_min.
     and_then (and_then (py_get ad_data ''maxQuoteAmount'' (PInt 0)) (py_float B)) (\<lambda>v_max.
     and_then (and_then (py_get ad_data ''availableAmount'' (PInt 0)) (py_float B)) (\<lambda>v_avail.
     and_then (py_get ad_data ''paymentMethodList'' (PList [])) (\<lambda>v_methods.
     and_then (py_get ad_data ''merchantName'' (PStr [])) (\<lambda>v_name.
     and_then (and_then (py_get ad_data ''completionRate'' (PInt 0)) (py_float B)) (\<lambda>v_rate.
     and_then (and_then (py_get ad_data ''orderCount'' (PInt 0)) (py_int B)) (\<lambda>v_count.
     and_then (py_get ad_data ''id'' (PStr [])) (\<lambda>v_id.
       Inr \<lparr>ad.platform = ''okx'',
            ad.timestamp = now @ ''Z'',
            asset = v_asset,
            fiat = v_fiat,
            price = v_price,
            min_amount = v_min,
            max_amount = v_max,
            available_amount = v_avail,
            trade_type = standard_trade_type,
            ad.country_code = code,
            payment_methods = v_methods,
            advertiser_name = v_name,
            completion_rate = v_rate,
            order_count = v_count,
            ad_id = v_id,
            premium_pct = None,
            ad.collection_id = None\<rparr>))))))))))))"

text \<open>
  The state of a collection run: the advertisements gathered so far and the two counters,
  which the loop over a page's advertisements updates together.
\<close>

record collect_state =
  all_ads :: "ad list"
  buy_count :: nat
  sell_count :: nat

lemma and_then_cong [fundef_cong]:
  "m = m' \<Longrightarrow> (\<And>x. m' = Inr x \<Longrightarrow> f x = f' x) \<Longrightarrow> and_then m f = and_then m' f'"
  by (cases m') (simp_all add: and_then_def)

fun binance_ads_loop ::
  "builtins \<Rightarrow> string \<Rightarrow> string \<Rightarrow> string \<Rightarrow> pyval list \<Rightarrow> collect_state
     \<Rightarrow> exn + collect_state" where
  "binance_ads_loop B now code side [] st = Inr st"
| "binance_ads_loop B now code side (a # rest) st =
     and_then (binance_standardize_ad B now a code side) (\<lambda>standardized.
       binance_ads_loop B now code side rest
         (if side = ''BUY''
          then st\<lparr>all_ads := all_ads st @ [standardized], buy_count := buy_count st + 1\<rparr>
          else st\<lparr>all_ads := all_ads st @ [standardized], sell_count := sell_count st + 1\<rparr>))"

text \<open>
  The pagination loop of one side: at most five pages; an empty response, a response
  without data or an empty page ends it. \<open>fetch side page\<close> is the response of
  \<open>get_ads\<close>, which is the empty dictionary after a transport error.
\<close>

function binance_page_loop ::
  "builtins \<Rightarrow> string \<Rightarrow> (string \<Rightarrow> nat \<Rightarrow> pyval) \<Rightarrow> string \<Rightarrow> string \<Rightarrow> nat
     \<Rightarrow> collect_state \<Rightarrow> exn + collect_state" where
  "binance_page_loop B now fetch code side page st =
     (if page \<le> 5 then
        (let response = fetch side page in
         if \<not> py_truthy response then Inr st
         else and_then (py_get response ''data'' PNone) (\<lambda>d.
           if \<not> py_truthy d then Inr st
           else and_then (py_item response ''data'') (\<lambda>ads.
             if \<not> py_truthy ads then Inr st
             else and_then (py_iter ads) (\<lambda>items.
               and_then (binance_ads_loop B now code side items st) (\<lambda>st'.
                 binance_page_loop B now fetch code side (page + 1) st')))))
      else Inr st)"
  by pat_completeness auto
termination
  by (relation "measure (\<lambda>(B, now, fetch, code, side, page, st). 6 - page)") auto

declare binance_page_loop.simps [simp del]

fun binance_side_loop ::
  "builtins \<Rightarrow> string \<Rightarrow> (string \<Rightarrow> nat \<Rightarrow> pyval) \<Rightarrow> string \<Rightarrow> string list
     \<Rightarrow> collect_state \<Rightarrow> exn + collect_state" where
  "binance_side_loop B now fetch code [] st = Inr st"
| "binance_side_loop B now fetch code (side # sides) st =
     and_then (binance_page_loop B now fetch code side 1 st)
       (binance_side_loop B now fetch code sides)"

text \<open>
  \<open>collect_country_data\<close>: a \<open>ValueError\<close> (an unknown country, a field that does not
  convert) is caught and the run returns the empty list; any other exception leaves the
  method. The result carries the returned list and the store.
\<close>

definition binance_collect_country_data ::
  "builtins \<Rightarrow> string \<Rightarrow> profile list \<Rightarrow> (string \<Rightarrow> string \<Rightarrow> string \<Rightarrow> nat \<Rightarrow> pyval)
     \<Rightarrow> csv_store \<Rightarrow> string \<Rightarrow> string \<Rightarrow> bool \<Rightarrow> exn + ad list \<times> csv_store" where
  "binance_collect_country_data B now profiles get_ads store code asset_name save_to_csv =
     (case get_profile_by_country_code profiles code of
        Inl e \<Rightarrow> Inr ([], store)
      | Inr prof \<Rightarrow>
          (let fiat_cur = profile.fiat prof;
               cid = generate_collection_id store
           in case binance_side_loop B now (get_ads asset_name fiat_cur) code [''BUY'', ''SELL'']
                     \<lparr>all_ads = [], buy_count = 0, sell_count = 0\<rparr> of
                Inl e \<Rightarrow> if is_ValueError e then Inr ([], store) else Inl e
              | Inr st \<Rightarrow>
                  if save_to_csv \<and> all_ads st \<noteq> [] then
                    (case save_raw_ads B store (all_ads st) ''binance'' code (Some cid) of
                       (path, saved, store1) \<Rightarrow>
                         Inr (saved,
                              log_collection_run store1 ''binance'' code (profile.name prof)
                                fiat_cur (length saved) (buy_count st) (sell_count st)
                                ''success'' [] (Some cid)))
                  else Inr (all_ads st, store)))"

fun okx_ads_loop ::
  "builtins \<Rightarrow> string \<Rightarrow> string \<Rightarrow> string \<Rightarrow> pyval list \<Rightarrow> collect_state
     \<Rightarrow> exn + collect_state" where
  "okx_ads_loop B now code side [] st = Inr st"
| "okx_ads_loop B now code side (a # rest) st =
     and_then (okx_standardize_ad B now a code side) (\<lambda>standardized.
       okx_ads_loop B now code side rest
         (if side = ''buy''
          then st\<lparr>all_ads := all_ads st @ [standardized], buy_count := buy_count st + 1\<rparr>
          else st\<lparr>all_ads := all_ads st @ [standardized], sell_count := sell_count st + 1\<rparr>))"

function okx_page_loop ::
  "builtins \<Rightarrow> string \<Rightarrow> (string \<Rightarrow> nat \<Rightarrow> pyval) \<Rightarrow> string \<Rightarrow> string \<Rightarrow> nat
     \<Rightarrow> collect_state \<Rightarrow> exn + collect_state" where
  "okx_page_loop B now fetch code side page st =
     (if page \<le> 3 then
        (let response = fetch side page in
         if \<not> py_truthy response then Inr st
         else and_then (py_get response ''data'' PNone) (\<lambda>d.
           if \<not> py_truthy d then Inr st
           else and_then (py_get response ''data'' (PDict [])) (\<lambda>d'.
             and_then (py_get d' ''orders'' (PList [])) (\<lambda>ads.
               if \<not> py_truthy ads then Inr st
               else and_then (py_iter ads) (\<lambda>items.
                 and_then (okx_ads_loop B now code side items st) (\<lambda>st'.
                   okx_page_loop B now fetch code side (page + 1) st'))))))
      else Inr st)"
  by pat_completeness auto
termination
  by (relation "measure (\<lambda>(B, now, fetch, code, side, page, st). 4 - page)") auto

declare okx_page_loop.simps [simp del]

fun okx_side_loop ::
  "builtins \<Rightarrow> string \<Rightarrow> (string \<Rightarrow> nat \<Rightarrow> pyval) \<Rightarrow> string \<Rightarrow> string list
     \<Rightarrow> collect_state \<Rightarrow> exn + collect_state" where
  "okx_side_loop B now fetch code [] st = Inr st"
| "okx_side_loop B now fetch code (side # sides) st =
     and_then (okx_page_loop B now fetch code side 1 st)
       (okx_side_loop B now fetch code sides)"

definition okx_collect_country_data ::
  "builtins \<Rightarrow> string \<Rightarrow> profile list \<Rightarrow> (string \<Rightarrow> string \<Rightarrow> string \<Rightarrow> nat \<Rightarrow> pyval)
     \<Rightarrow> csv_store \<Rightarrow> string \<Rightarrow> string \<Rightarrow> bool \<Rightarrow> exn + ad list \<times> csv_store" where
  "okx_collect_country_data B now profiles get_ads store code asset_name save_to_csv =
     (case get_profile_by_country_code profiles code of
        Inl e \<Rightarrow> Inr ([], store)
      | Inr prof \<Rightarrow>
          (let fiat_cur = profile.fiat prof;
               cid = generate_collection_id store
           in case okx_side_loop B now (get_ads asset_name fiat_cur) code [''buy'', ''sell'']
                     \<lparr>all_ads = [], buy_count = 0, sell_count = 0\<rparr> of
                Inl e \<Rightarrow> if is_ValueError e then Inr ([], store) else Inl e
              | Inr st \<Rightarrow>
                  if save_to_csv \<and> all_ads st \<noteq> [] then
                    (case save_raw_ads B store (all_ads st) ''okx'' code (Some cid) of
                       (path, saved, store1) \<Rightarrow>
                         Inr (saved,
                              log_collection_run store1 ''okx'' code (profile.name prof)
                                fiat_cur (length saved) (buy_count st) (sell_count st)
                                ''success'' [] (Some cid)))
                  else Inr (all_ads st, store)))"

section \<open>Rate resolver (utils/exchange\_rates.py)\<close>

text \<open>
  A Python float is an IEEE 754 double. A finite double that is not a zero is written
  \<open>Finite x\<close>, where \<open>x\<close> is the rational number it stands for; \<open>Finite 0\<close> is the zero
  with the plus sign and \<open>MinusZero\<close> the zero with the minus sign; \<open>Infinity s\<close> is the
  infinity whose sign bit is \<open>s\<close> (true for the negative one); \<open>NaN\<close> stands for every
  value that is not a number. The parameters of \<open>calculate_premium\<close> are declared as
  floats. An int argument of magnitude at most \<open>2 ^ 53\<close> is converted by each operation to
  the float of the same value, and the quotient of two such ints is correctly rounded as the
  quotient of the two floats is, so that such an int is written as that float. Scalars of
  other libraries, which bring their own arithmetic and rounding, are not covered.
\<close>

datatype double = Finite rat | MinusZero | Infinity bool | NaN

text \<open>The integer nearest to a rational number, a tie going to the even integer.\<close>

definition round_half_even :: "rat \<Rightarrow> int" where
  "round_half_even q =
     (let f = \<lfloor>q\<rfloor>; d = q - of_int f in
      if d < 1 / 2 then f
      else if 1 / 2 < d then f + 1
      else if even f then f else f + 1)"

text \<open>
  \<open>binexp x\<close> is the binary exponent of a rational \<open>x\<close> that is not zero: the integer
  \<open>e\<close> with \<open>2 ^ e \<le> \<bar>x\<bar> < 2 ^ (e + 1)\<close>. The doubles around \<open>x\<close> are the multiples of
  \<open>ulp_of x\<close>: a significand of 53 bits, and an exponent that does not go below
  \<open>-1022\<close> (below it the doubles are subnormal and evenly spaced). \<open>nearest_double x\<close> is
  the multiple nearest to \<open>x\<close>, a tie going to the even significand: the rounding of every
  arithmetic operation and of the reading of a decimal numeral.
\<close>

definition pow2 :: "int \<Rightarrow> rat" where
  "pow2 e = (if 0 \<le> e then 2 ^ nat e else 1 / 2 ^ nat (- e))"

definition binexp :: "rat \<Rightarrow> int" where
  "binexp x =
     (if 1 \<le> \<bar>x\<bar> then bitlen \<lfloor>\<bar>x\<bar>\<rfloor> - 1
      else - bitlen (\<lceil>1 / \<bar>x\<bar>\<rceil> - 1))"

definition ulp_of :: "rat \<Rightarrow> rat" where
  "ulp_of x = pow2 (max (binexp x) (- 1022) - 52)"

definition nearest_double :: "rat \<Rightarrow> rat" where
  "nearest_double x = of_int (round_half_even (x / ulp_of x)) * ulp_of x"

text \<open>The largest finite double.\<close>

definition max_double :: rat where
  "max_double = (2 ^ 53 - 1) * pow2 971"

text \<open>
  The double delivered for an exact result \<open>x\<close>. An exact zero takes the sign given by the
  operation; a rounded value whose exponent exceeds 1023 overflows to the infinity with the
  sign of \<open>x\<close>; a value rounded to zero keeps the sign of \<open>x\<close>.
\<close>

definition signed_zero :: "bool \<Rightarrow> double" where
  "signed_zero negative = (if negative then MinusZero else Finite 0)"

definition round_double :: "bool \<Rightarrow> rat \<Rightarrow> double" where
  "round_double negative x =
     (if x = 0 then signed_zero negative
      else
        (let y = nearest_double x in
         if y = 0 then signed_zero (x < 0)
         else if 1024 \<le> binexp y then Infinity (x < 0)
         else Finite y))"

text \<open>The float that a decimal numeral of the source denotes.\<close>

definition float_literal :: "rat \<Rightarrow> double" where
  "float_literal x = round_double False x"

definition is_zero :: "double \<Rightarrow> bool" where
  "is_zero d = (d = Finite 0 \<or> d = MinusZero)"

fun is_inf :: "double \<Rightarrow> bool" where
  "is_inf (Infinity s) = True"
| "is_inf _ = False"

fun sign_bit :: "double \<Rightarrow> bool" where
  "sign_bit (Finite x) = (x < 0)"
| "sign_bit MinusZero = True"
| "sign_bit (Infinity s) = s"
| "sign_bit NaN = False"

fun is_finite :: "double \<Rightarrow> bool" where
  "is_finite (Finite x) = True"
| "is_finite MinusZero = True"
| "is_finite _ = False"

fun double_value :: "double \<Rightarrow> rat" where
  "double_value (Finite x) = x"
| "double_value _ = 0"

text \<open>
  Division, subtraction and multiplication of doubles, with the special cases of IEEE 754.
  Python's \<open>/\<close> raises \<open>ZeroDivisionError\<close> for a divisor that is a zero, whatever the
  dividend, and otherwise divides.
\<close>

definition double_div :: "double \<Rightarrow> double \<Rightarrow> double" where
  "double_div a b =
     (let s = (sign_bit a \<noteq> sign_bit b) in
      if a = NaN \<or> b = NaN then NaN
      else if is_inf a then (if is_inf b then NaN else Infinity s)
      else if is_inf b then signed_zero s
      else if is_zero b then (if is_zero a then NaN else Infinity s)
      else round_double s (double_value a / double_value b))"

definition double_sub :: "double \<Rightarrow> double \<Rightarrow> double" where
  "double_sub a b =
     (if a = NaN \<or> b = NaN then NaN
      else if is_inf a then (if is_inf b \<and> sign_bit a = sign_bit b then NaN else a)
      else if is_inf b then Infinity (\<not> sign_bit b)
      else round_double (sign_bit a \<and> \<not> sign_bit b) (double_value a - double_value b))"

definition double_mul :: "double \<Rightarrow> double \<Rightarrow> double" where
  "double_mul a b =
     (let s = (sign_bit a \<noteq> sign_bit b) in
      if a = NaN \<or> b = NaN then NaN
      else if is_inf a \<or> is_inf b then (if is_zero a \<or> is_zero b then NaN else Infinity s)
      else round_double s (double_value a * double_value b))"

definition py_truediv :: "double \<Rightarrow> double \<Rightarrow> exn + double" where
  "py_truediv a b =
     (if is_zero b then Inl (ZeroDivisionError ''float division by zero'')
      else Inr (double_div a b))"

text \<open>
  \<open>round(d, 2)\<close>. A double that is not finite, and the zero with the minus sign, round to
  themselves. For a finite double the interpreter takes the multiple of one hundredth
  nearest to the exact value of the double, a tie going to the even multiple, and returns
  the double nearest to it, a zero with the sign of the argument. It raises only when that
  double is not finite, which does not happen with two digits (lemma
  \<open>py_round2_finite\<close>), so that the rounding is a total function here.
\<close>

definition py_round2 :: "double \<Rightarrow> double" where
  "py_round2 d =
     (case d of
        Finite x \<Rightarrow> round_double (x < 0) (of_int (round_half_even (x * 100)) / 100)
      | _ \<Rightarrow> d)"

text \<open>
  \<open>calculate_premium\<close>: the guard covers the official rate only; the division by the
  base value raises when the base value is a zero.
\<close>

definition calculate_premium :: "double \<Rightarrow> double \<Rightarrow> double \<Rightarrow> exn + double" where
  "calculate_premium crypto_price official_rate base_value =
     (if is_zero official_rate then Inr (Finite 0)
      else
        and_then (py_truediv crypto_price official_rate) (\<lambda>implied_usd_price.
        and_then (py_truediv (double_sub implied_usd_price base_value) base_value) (\<lambda>quotient.
          Inr (py_round2 (double_mul quotient (Finite 100))))))"

text \<open>
  A date is the number of its day. \<open>strptime\<close> gives the day of a text in the format
  year-month-day, or nothing where Python raises \<open>ValueError\<close>; \<open>strftime\<close> is its
  inverse. The two ways of getting rates return a dictionary from currency codes to rates;
  both catch their own exceptions.
\<close>

record rate_env =
  strptime :: "string \<Rightarrow> int option"
  strftime :: "int \<Rightarrow> string"
  today_dt :: int
  get_current_rates :: "string \<rightharpoonup> pyval"
  get_historical_rates :: "string \<Rightarrow> string \<rightharpoonup> pyval"
  new_collection_id :: string

record rate_record =
  timestamp :: string
  fiat_currency :: string
  usd_rate :: pyval
  source :: string
  collection_id :: string

text \<open>
  The loop of \<open>collect_crisis_period_rates\<close>. Each pass makes one request for rates
  (current rates for today's date, historical rates otherwise); \<open>requests\<close> lists the
  dates of the requests made so far, in order.
\<close>

function crisis_rates_loop ::
  "rate_env \<Rightarrow> string \<Rightarrow> int \<Rightarrow> int \<Rightarrow> int \<Rightarrow> rate_record list \<times> int list
     \<Rightarrow> rate_record list \<times> int list" where
  "crisis_rates_loop env fiat_cur start_dt end_dt current_dt (rates_data, requests) =
     (if current_dt \<le> end_dt then
        (let date_str = strftime env current_dt;
             rates = (if current_dt = today_dt env then get_current_rates env
                      else get_historical_rates env date_str);
             rates_data' =
               (case rates fiat_cur of
                  Some r \<Rightarrow>
                    rates_data @
                      [\<lparr>rate_record.timestamp = date_str @ ''T12:00:00Z'',
                        rate_record.fiat_currency = fiat_cur,
                        usd_rate = r,
                        source = ''api_composite'',
                        rate_record.collection_id = new_collection_id env\<rparr>]
                | None \<Rightarrow> rates_data);
             days_to_add = (if end_dt - start_dt > 90 then 7 else 1)
         in crisis_rates_loop env fiat_cur start_dt end_dt (current_dt + days_to_add)
              (rates_data', requests @ [current_dt]))
      else (rates_data, requests))"
  by pat_completeness auto
termination
  by (relation "measure (\<lambda>(env, fiat_cur, start_dt, end_dt, current_dt, acc).
        nat (end_dt + 1 - current_dt))") auto

declare crisis_rates_loop.simps [simp del]

text \<open>
  \<open>collect_crisis_period_rates\<close> returns the rate records; the model returns the dates
  requested with them. An unknown country and a date that does not parse raise
  \<open>ValueError\<close>, which the method catches: it returns the empty list, having made no
  request.
\<close>

definition collect_crisis_period_rates ::
  "rate_env \<Rightarrow> profile list \<Rightarrow> string \<Rightarrow> string \<Rightarrow> string \<Rightarrow> rate_record list \<times> int list" where
  "collect_crisis_period_rates env profiles code start_text end_text =
     (case get_profile_by_country_code profiles code of
        Inl e \<Rightarrow> ([], [])
      | Inr prof \<Rightarrow>
          (case strptime env start_text of
             None \<Rightarrow> ([], [])
           | Some start_dt \<Rightarrow>
               (case strptime env end_text of
                  None \<Rightarrow> ([], [])
                | Some end_dt \<Rightarrow>
                    crisis_rates_loop env (profile.fiat prof) start_dt end_dt start_dt ([], []))))"

section \<open>Collection orchestrator (scrapers/data\_orchestrator.py)\<close>

text \<open>
  A scraper's \<open>collect_country_data\<close> takes a country code and the state of the world
  \<open>'s\<close> (the network, the store), and returns a list of advertisements or raises. A
  scraper without the method is \<open>None\<close>.
\<close>

type_synonym 's scraper = "string \<Rightarrow> 's \<Rightarrow> (exn + ad list) \<times> 's"

record platform_stat =
  ads_collected :: nat
  countries_successful :: nat

record summary =
  timestamp :: string
  countries_processed :: nat
  total_ads_collected :: nat
  platform_stats :: "(string \<times> platform_stat) list"
  errors :: "string list"

text \<open>
  One pass of the loop over countries, the body of the \<open>try\<close>: the profile lookup, then
  the scraper. The result is what the body did: the list collected, or the exception that
  ended it.
\<close>

definition run_cell ::
  "profile list \<Rightarrow> 's scraper option \<Rightarrow> string \<Rightarrow> 's \<Rightarrow> (exn + ad list) \<times> 's" where
  "run_cell profiles scraper code w =
     (case get_profile_by_country_code profiles code of
        Inl e \<Rightarrow> (Inl e, w)
      | Inr country_profile \<Rightarrow>
          (case scraper of
             None \<Rightarrow> (Inr [], w)
           | Some collect \<Rightarrow> collect code w))"

record platform_acc =
  platform_ads :: nat
  platform_countries :: nat
  acc_errors :: "string list"

fun country_loop ::
  "profile list \<Rightarrow> string \<Rightarrow> 's scraper option \<Rightarrow> string list \<Rightarrow> platform_acc \<times> 's
     \<Rightarrow> platform_acc \<times> 's" where
  "country_loop profiles platform_name scraper [] (acc, w) = (acc, w)"
| "country_loop profiles platform_name scraper (code # rest) (acc, w) =
     (case run_cell profiles scraper code w of
        (Inr ads, w') \<Rightarrow>
          country_loop profiles platform_name scraper rest
            (acc\<lparr>platform_ads := platform_ads acc + length ads,
                 platform_countries :=
                   (if ads \<noteq> [] then platform_countries acc + 1 else platform_countries acc)\<rparr>,
             w')
      | (Inl e, w') \<Rightarrow>
          country_loop profiles platform_name scraper rest
            (acc\<lparr>acc_errors := acc_errors acc @
                   [platform_name @ '' failed for '' @ code @ '': '' @ exn_str e]\<rparr>,
             w'))"

fun platform_loop ::
  "profile list \<Rightarrow> (string \<times> 's scraper option) list \<Rightarrow> string list \<Rightarrow> summary \<times> 's
     \<Rightarrow> summary \<times> 's" where
  "platform_loop profiles [] countries (collection_summary, w) = (collection_summary, w)"
| "platform_loop profiles ((platform_name, scraper) # rest) countries (collection_summary, w) =
     (case country_loop profiles platform_name scraper countries
             (\<lparr>platform_ads = 0, platform_countries = 0,
               acc_errors = errors collection_summary\<rparr>, w) of
        (acc, w') \<Rightarrow>
          platform_loop profiles rest countries
            (collection_summary
               \<lparr>platform_stats :=
                  AList.update platform_name
                    \<lparr>platform_stat.ads_collected = platform_ads acc,
                      countries_successful = platform_countries acc\<rparr>
                    (platform_stats collection_summary),
                total_ads_collected := total_ads_collected collection_summary + platform_ads acc,
                errors := acc_errors acc\<rparr>,
             w'))"

text \<open>
  \<open>collect_current_snapshot\<close>. \<open>rates\<close> is the step that collects the current exchange
  rates first; its exception, if any, is recorded. An absent or empty list of countries
  stands for all supported countries.
\<close>

definition collect_current_snapshot ::
  "string \<Rightarrow> profile list \<Rightarrow> (string \<times> 's scraper option) list \<Rightarrow> ('s \<Rightarrow> exn option \<times> 's)
     \<Rightarrow> string list \<Rightarrow> 's \<Rightarrow> summary \<times> 's" where
  "collect_current_snapshot now profiles scrapers rates countries w =
     (let countries' =
            (if countries = [] then map profile.country_code (list_supported_countries profiles)
             else countries);
          collection_summary =
            \<lparr>summary.timestamp = now, countries_processed = 0, total_ads_collected = 0,
              platform_stats = [], errors = []\<rparr>
      in case rates w of
           (failure, w1) \<Rightarrow>
             (let summary1 =
                    (case failure of
                       None \<Rightarrow> collection_summary
                     | Some e \<Rightarrow>
                         collection_summary
                           \<lparr>errors := errors collection_summary @
                              [''Exchange rate collection failed: '' @ exn_str e]\<rparr>)
              in case platform_loop profiles scrapers countries' (summary1, w1) of
                   (summary2, w2) \<Rightarrow>
                     (summary2\<lparr>countries_processed := length countries'\<rparr>, w2)))"

text \<open>
  The cells of a run, one for each platform and country: \<open>cell_results\<close> runs the body
  of the \<open>try\<close> for each country in order and lists what each did; \<open>platform_results\<close>
  does so for each platform in order. \<open>cell_errors\<close> are the messages of the cells that
  raised, \<open>cell_ads\<close> the number of advertisements of the cells that returned, and
  \<open>cell_successes\<close> the number of cells that returned a list that is not empty.
\<close>

type_synonym cell_result = "string \<times> (exn + ad list)"

fun cell_results ::
  "profile list \<Rightarrow> 's scraper option \<Rightarrow> string list \<Rightarrow> 's \<Rightarrow> cell_result list \<times> 's" where
  "cell_results profiles scraper [] w = ([], w)"
| "cell_results profiles scraper (code # rest) w =
     (case run_cell profiles scraper code w of
        (r, w1) \<Rightarrow>
          (case cell_results profiles scraper rest w1 of
             (rs, w2) \<Rightarrow> ((code, r) # rs, w2)))"

fun cell_errors :: "string \<Rightarrow> cell_result list \<Rightarrow> string list" where
  "cell_errors platform_name [] = []"
| "cell_errors platform_name ((code, Inl e) # rs) =
     (platform_name @ '' failed for '' @ code @ '': '' @ exn_str e) # cell_errors platform_name rs"
| "cell_errors platform_name ((code, Inr ads) # rs) = cell_errors platform_name rs"

fun cell_ads :: "cell_result list \<Rightarrow> nat" where
  "cell_ads [] = 0"
| "cell_ads ((code, Inl e) # rs) = cell_ads rs"
| "cell_ads ((code, Inr ads) # rs) = length ads + cell_ads rs"

fun cell_successes :: "cell_result list \<Rightarrow> nat" where
  "cell_successes [] = 0"
| "cell_successes ((code, Inl e) # rs) = cell_successes rs"
| "cell_successes ((code, Inr ads) # rs) = (if ads \<noteq> [] then 1 else 0) + cell_successes rs"

fun platform_results ::
  "profile list \<Rightarrow> (string \<times> 's scraper option) list \<Rightarrow> string list \<Rightarrow> 's
     \<Rightarrow> (string \<times> cell_result list) list \<times> 's" where
  "platform_results profiles [] countries w = ([], w)"
| "platform_results profiles ((platform_name, scraper) # rest) countries w =
     (case cell_results profiles scraper countries w of
        (rs, w1) \<Rightarrow>
          (case platform_results profiles rest countries w1 of
             (prs, w2) \<Rightarrow> ((platform_name, rs) # prs, w2)))"

definition stat_of :: "cell_result list \<Rightarrow> platform_stat" where
  "stat_of rs = \<lparr>platform_stat.ads_collected = cell_ads rs, countries_successful = cell_successes rs\<rparr>"

text \<open>
  The Binance adapter as a scraper of the orchestrator: \<open>collect_country_data\<close> with its
  default arguments, on the store.
\<close>

definition binance_scraper ::
  "builtins \<Rightarrow> string \<Rightarrow> profile list \<Rightarrow> (string \<Rightarrow> string \<Rightarrow> string \<Rightarrow> nat \<Rightarrow> pyval)
     \<Rightarrow> csv_store scraper" where
  "binance_scraper B now profiles get_ads code store =
     (case binance_collect_country_data B now profiles get_ads store code ''USDT'' True of
        Inl e \<Rightarrow> (Inl e, store)
      | Inr (ads, store') \<Rightarrow> (Inr ads, store'))"

section \<open>Loading payment methods (CSVDataManager.load\_raw\_ads)\<close>















section \<open>Correlation with historical prices (4\_data\_analysis)\<close>












section \<open>Invariants of a collection run\<close>

text \<open>
  \<open>extends P buy st st'\<close>: the state \<open>st'\<close> is \<open>st\<close> with new advertisements appended,
  all satisfying \<open>P\<close> and all counted on one side. \<open>two_sided st\<close>: the advertisements
  are those of the buy side followed by those of the sell side, and the counters are the
  lengths of the two parts. \<open>run_outcome\<close>: what a collection run that returned \<open>ads\<close>
  has done to the collection log.
\<close>

definition extends :: "(ad \<Rightarrow> bool) \<Rightarrow> bool \<Rightarrow> collect_state \<Rightarrow> collect_state \<Rightarrow> bool" where
  "extends P buy st st' =
     (\<exists>new. all_ads st' = all_ads st @ new \<and> (\<forall>a\<in>set new. P a)
        \<and> buy_count st' = buy_count st + (if buy then length new else 0)
        \<and> sell_count st' = sell_count st + (if buy then 0 else length new))"

definition two_sided :: "collect_state \<Rightarrow> bool" where
  "two_sided st =
     (\<exists>buys sells. all_ads st = buys @ sells
        \<and> (\<forall>a\<in>set buys. ad.trade_type a = ''BUY'' \<and> ad.premium_pct a = None)
        \<and> (\<forall>a\<in>set sells. ad.trade_type a = ''SELL'' \<and> ad.premium_pct a = None)
        \<and> buy_count st = length buys \<and> sell_count st = length sells)"

definition run_outcome :: "string \<Rightarrow> bool \<Rightarrow> csv_store \<Rightarrow> ad list \<Rightarrow> csv_store \<Rightarrow> bool" where
  "run_outcome platform_name save_to_csv store ads store' =
     ((\<forall>a\<in>set ads. (ad.trade_type a = ''BUY'' \<or> ad.trade_type a = ''SELL'') \<and> ad.premium_pct a = None)
      \<and> (\<exists>new. collection_log store' = collection_log store @ new
            \<and> length new = (if save_to_csv \<and> ads \<noteq> [] then 1 else 0)
            \<and> (\<forall>e\<in>set new.
                  log_entry.ads_collected e = buy_ads e + sell_ads e
                  \<and> log_entry.ads_collected e = length ads
                  \<and> buy_ads e = length (filter (\<lambda>a. ad.trade_type a = ''BUY'') ads)
                  \<and> sell_ads e = length (filter (\<lambda>a. ad.trade_type a = ''SELL'') ads)
                  \<and> log_entry.platform e = platform_name)))"

section \<open>Example data\<close>

text \<open>
  Concrete inputs on which the results below are evaluated: two profiles of the shape the
  loader's docstring shows, builtins that convert no text, a store, and a calendar that
  knows the two dates of the Sudan crisis period and prints a date as its day number.
\<close>

definition sudan :: profile where
  "sudan = \<lparr>profile.country_code = ''SD'', name = ''Sudan'', profile.fiat = ''SDG'',
     stablecoins = [''USDT''], expected_payment_methods = [''MTN'', ''Zain'', ''Bank Transfer''],
     exchange_rate_sources = [''https://xe.com''],
     p2p_platforms = [''binance'', ''okx'', ''paxful''],
     start_date = ''2019-01-01'',
     profile_notes = ''Conflict zone, high mobile money use, USD scarcity''\<rparr>"

definition venezuela :: profile where
  "venezuela = \<lparr>profile.country_code = ''VE'', name = ''Venezuela'', profile.fiat = ''VES'',
     stablecoins = [''USDT''], expected_payment_methods = [''Bank Transfer''],
     exchange_rate_sources = [], p2p_platforms = [''binance''],
     start_date = ''2019-01-01'', profile_notes = []\<rparr>"

definition plain_builtins :: builtins where
  "plain_builtins =
     \<lparr>str_to_float = (\<lambda>s. None), str_to_int = (\<lambda>s. None), float_repr = (\<lambda>q. ''0.0'')\<rparr>"

definition empty_store :: csv_store where
  "empty_store =
     \<lparr>raw_files = Map.empty, collection_log = [], today = ''2025-07-29'',
       clock_compact = ''20250729_120000'', clock_iso = ''2025-07-29T12:00:00''\<rparr>"

definition example_rate_env :: rate_env where
  "example_rate_env =
     \<lparr>strptime = (\<lambda>t. if t = ''2021-10-01'' then Some 18901
                       else if t = ''2022-04-19'' then Some 19101 else None),
       strftime = int_repr,
       today_dt = 20298,
       get_current_rates = Map.empty,
       get_historical_rates = (\<lambda>d. [''SDG'' \<mapsto> PFloat 600]),
       new_collection_id = ''collection_20250729_120000''\<rparr>"

text \<open>
  An advertisement as the store's own test builds it, and responses of Binance for Sudan:
  a first page of two advertisements on each side, a second page of one on the buy side,
  nothing after.
\<close>

definition example_ad :: ad where
  "example_ad =
     \<lparr>ad.platform = ''binance'', ad.timestamp = ''2025-07-29T12:00:00Z'',
       asset = PStr ''USDT'', fiat = PStr ''SDG'', price = 210105 / 200, min_amount = 100,
       max_amount = 5000, available_amount = 2500, trade_type = ''SELL'',
       ad.country_code = ''SD'',
       payment_methods = PList [PStr ''MTN'', PStr ''Bank Transfer''],
       advertiser_name = PStr ''TestUser'', completion_rate = 191 / 2, order_count = 150,
       ad_id = PStr ''test_001'', premium_pct = None, ad.collection_id = None\<rparr>"

definition example_page :: pyval where
  "example_page =
     PDict [(''data'',
       PList [PDict [(''adv'', PDict [(''asset'', PStr ''USDT''), (''fiatUnit'', PStr ''SDG''),
                        (''price'', PFloat (210105 / 200)),
                        (''tradeMethods'', PList [PDict [(''tradeMethodName'', PStr ''MTN'')]])]),
                     (''advertiser'', PDict [(''nickName'', PStr ''TestUser'')])],
              PDict [(''adv'', PDict [(''price'', PInt 1049)])]])]"

definition example_get_ads :: "string \<Rightarrow> string \<Rightarrow> string \<Rightarrow> nat \<Rightarrow> pyval" where
  "example_get_ads asset_name fiat_cur side page =
     (if fiat_cur = ''SDG'' \<and> page = 1 then example_page
      else if fiat_cur = ''SDG'' \<and> page = 2 \<and> side = ''BUY'' then
        PDict [(''data'', PList [PDict []])]
      else PDict [])"

definition example_run :: "exn + ad list \<times> csv_store" where
  "example_run =
     binance_collect_country_data plain_builtins ''2025-07-29T12:00:00'' [sudan, venezuela]
       example_get_ads empty_store ''sd'' ''USDT'' True"

text \<open>Responses of OKX for Sudan: one advertisement on each side.\<close>

definition example_okx_get_ads :: "string \<Rightarrow> string \<Rightarrow> string \<Rightarrow> nat \<Rightarrow> pyval" where
  "example_okx_get_ads asset_name fiat_cur side page =
     (if fiat_cur = ''SDG'' \<and> page = 1 then
        PDict [(''data'',
          PDict [(''orders'',
            PList [PDict [(''cryptoCurrency'', PStr ''USDT''), (''fiatCurrency'', PStr ''SDG''),
                          (''price'', PFloat 1050),
                          (''paymentMethodList'', PList [PStr ''MTN''])]])])]
      else PDict [])"

definition example_okx_run :: "exn + ad list \<times> csv_store" where
  "example_okx_run =
     okx_collect_country_data plain_builtins ''2025-07-29T12:00:00'' [sudan, venezuela]
       example_okx_get_ads empty_store ''sd'' ''USDT'' True"

text \<open>
  A snapshot over four countries in which the exchange rates fail, one country is
  unknown, and the platform answers for Venezuela with a list instead of a dictionary.
\<close>

definition failing_get_ads :: "string \<Rightarrow> string \<Rightarrow> string \<Rightarrow> nat \<Rightarrow> pyval" where
  "failing_get_ads asset_name fiat_cur side page =
     (if fiat_cur = ''VES'' then PList [PInt 1] else example_get_ads asset_name fiat_cur side page)"

definition example_snapshot :: "summary \<times> csv_store" where
  "example_snapshot =
     collect_current_snapshot ''2025-07-29T12:00:00'' [sudan, venezuela]
       [(''binance'',
         Some (binance_scraper plain_builtins ''2025-07-29T12:00:00'' [sudan, venezuela]
                 failing_get_ads))]
       (\<lambda>w. (Some (RequestException ''timed out''), w))
       [''SD'', ''XX'', ''VE'', ''sd''] empty_store"


section \<open>Premium formula\<close>

lemma pow2_powi: "pow2 e = 2 powi e"
  by (simp add: pow2_def power_int_def field_simps)

lemma pow2_pos: "0 < pow2 e"
  by (simp add: pow2_powi)

lemma pow2_add: "pow2 (a + b) = pow2 a * pow2 b"
  by (simp add: pow2_powi power_int_add)

lemma pow2_mono: "a \<le> b \<Longrightarrow> pow2 a \<le> pow2 b"
  by (simp add: pow2_powi power_int_increasing)

lemma pow2_strict_mono: "a < b \<Longrightarrow> pow2 a < pow2 b"
  by (simp add: pow2_powi power_int_strict_increasing)

lemma pow2_less: "pow2 a < pow2 b \<longleftrightarrow> a < b"
  using pow2_strict_mono [of a b] pow2_mono [of b a] by (cases "a < b") auto

lemma pow2_le: "pow2 a \<le> pow2 b \<longleftrightarrow> a \<le> b"
  using pow2_strict_mono [of b a] pow2_mono [of a b] by (cases "a \<le> b") auto

lemma pow2_nat: "0 \<le> e \<Longrightarrow> pow2 e = 2 ^ nat e"
  by (simp add: pow2_def)

lemma binexp_bounds:
  assumes "x \<noteq> 0"
  shows "pow2 (binexp x) \<le> \<bar>x\<bar>" and "\<bar>x\<bar> < pow2 (binexp x + 1)"
proof -
  have "pow2 (binexp x) \<le> \<bar>x\<bar> \<and> \<bar>x\<bar> < pow2 (binexp x + 1)"
  proof (cases "1 \<le> \<bar>x\<bar>")
    case True
    define n where "n = \<lfloor>\<bar>x\<bar>\<rfloor>"
    have n: "0 < n" using True by (simp add: n_def)
    have e: "binexp x = bitlen n - 1" using True by (simp add: binexp_def n_def)
    from bitlen_bounds [OF n] have b: "2 ^ nat (bitlen n - 1) \<le> n" "n < 2 ^ nat (bitlen n)"
      by simp_all
    have g: "1 \<le> bitlen n" using n by (auto simp: bitlen_alt_def)
    have "(of_int n :: rat) \<le> \<bar>x\<bar>" by (simp add: n_def)
    moreover have "(2::rat) ^ nat (bitlen n - 1) \<le> of_int n"
      using b(1) by (metis of_int_le_iff of_int_numeral of_int_power)
    ultimately have "(2::rat) ^ nat (bitlen n - 1) \<le> \<bar>x\<bar>"
      by (rule order_trans [rotated])
    moreover have "pow2 (binexp x) = 2 ^ nat (bitlen n - 1)"
      using g by (simp add: e pow2_nat)
    ultimately have 1: "pow2 (binexp x) \<le> \<bar>x\<bar>"
      by (simp only:)
    have "n + 1 \<le> 2 ^ nat (bitlen n)" using b(2) by simp
    then have "(of_int (n + 1) :: rat) \<le> 2 ^ nat (bitlen n)"
      by (metis of_int_le_iff of_int_numeral of_int_power)
    moreover have "\<bar>x\<bar> < of_int (n + 1)" by (simp add: n_def) linarith
    ultimately have "\<bar>x\<bar> < 2 ^ nat (bitlen n)"
      by (rule less_le_trans [rotated])
    moreover have "pow2 (binexp x + 1) = 2 ^ nat (bitlen n)"
      using g by (simp add: e pow2_nat)
    ultimately have 2: "\<bar>x\<bar> < pow2 (binexp x + 1)"
      by (simp only:)
    from 1 2 show ?thesis ..
  next
    case False
    define y where "y = 1 / \<bar>x\<bar>"
    define m where "m = \<lceil>y\<rceil>"
    have x: "0 < \<bar>x\<bar>" "\<bar>x\<bar> < 1" using False assms by simp_all
    have y: "1 < y" using x by (simp add: y_def)
    have m: "0 < m - 1" using y by (simp add: m_def)
    define k where "k = bitlen (m - 1)"
    have e: "binexp x = - k" using False by (simp add: binexp_def k_def m_def y_def)
    from bitlen_bounds [OF m] have b: "2 ^ nat (k - 1) \<le> m - 1" "m - 1 < 2 ^ nat k"
      by (simp_all add: k_def)
    have g: "1 \<le> k" using m by (auto simp: k_def bitlen_alt_def)
    have "m \<le> 2 ^ nat k" using b(2) by simp
    then have "(of_int m :: rat) \<le> 2 ^ nat k"
      by (metis of_int_le_iff of_int_numeral of_int_power)
    moreover have "y \<le> of_int m" by (simp add: m_def)
    ultimately have "y \<le> 2 ^ nat k" by (rule order_trans [rotated])
    then have "1 / 2 ^ nat k \<le> \<bar>x\<bar>"
      using x by (simp add: y_def field_simps)
    then have 1: "pow2 (binexp x) \<le> \<bar>x\<bar>"
      using g by (simp add: e pow2_def)
    have "(2::rat) ^ nat (k - 1) \<le> of_int (m - 1)"
      using b(1) by (metis of_int_le_iff of_int_numeral of_int_power)
    moreover have "of_int (m - 1) < y" by (simp add: m_def) linarith
    ultimately have "2 ^ nat (k - 1) < y" by (rule le_less_trans)
    then have "\<bar>x\<bar> < 1 / 2 ^ nat (k - 1)"
      using x by (simp add: y_def field_simps)
    moreover have "pow2 (- k + 1) = 1 / 2 ^ nat (k - 1)"
      using g by (cases "k = 1") (simp_all add: pow2_def)
    ultimately have 2: "\<bar>x\<bar> < pow2 (binexp x + 1)"
      by (simp add: e)
    from 1 2 show ?thesis ..
  qed
  then show "pow2 (binexp x) \<le> \<bar>x\<bar>" and "\<bar>x\<bar> < pow2 (binexp x + 1)" by simp_all
qed
lemma round_half_even_close: "\<bar>of_int (round_half_even q) - q\<bar> \<le> 1 / 2"
proof -
  have "of_int \<lfloor>q\<rfloor> \<le> q" "q < of_int \<lfloor>q\<rfloor> + 1" by linarith+
  then show ?thesis
    by (auto simp: round_half_even_def Let_def)
qed

lemma round_half_even_le: "z \<le> of_int n \<Longrightarrow> round_half_even z \<le> n"
  using round_half_even_close [of z] by linarith

lemma round_half_even_ge: "of_int n \<le> z \<Longrightarrow> n \<le> round_half_even z"
  using round_half_even_close [of z] by linarith

lemma round_half_even_of_int: "round_half_even (of_int n) = n"
  by (simp add: round_half_even_def)

lemma round_half_even_abs_le:
  assumes "\<bar>z\<bar> \<le> of_int n"
  shows "\<bar>round_half_even z\<bar> \<le> n"
proof -
  from assms have a: "z \<le> of_int n" and b: "of_int (- n) \<le> z" by simp_all
  have "round_half_even z \<le> n" using a by (rule round_half_even_le)
  moreover have "- n \<le> round_half_even z" using b by (rule round_half_even_ge)
  ultimately show ?thesis by simp
qed


lemma ulp_of_pos: "0 < ulp_of x"
  by (simp add: ulp_of_def pow2_pos)

lemma nearest_double_close: "\<bar>nearest_double x - x\<bar> \<le> ulp_of x / 2"
proof -
  have u: "0 < ulp_of x" by (rule ulp_of_pos)
  have "\<bar>of_int (round_half_even (x / ulp_of x)) - x / ulp_of x\<bar> \<le> 1 / 2"
    by (rule round_half_even_close)
  then have "\<bar>of_int (round_half_even (x / ulp_of x)) - x / ulp_of x\<bar> * ulp_of x \<le> 1 / 2 * ulp_of x"
    using u by (simp only: mult_le_cancel_right) simp
  moreover have "\<bar>of_int (round_half_even (x / ulp_of x)) - x / ulp_of x\<bar> * ulp_of x
      = \<bar>nearest_double x - x\<bar>"
  proof -
    have "\<bar>of_int (round_half_even (x / ulp_of x)) - x / ulp_of x\<bar> * ulp_of x
        = \<bar>(of_int (round_half_even (x / ulp_of x)) - x / ulp_of x) * ulp_of x\<bar>"
      using u by (simp add: abs_mult)
    also have "(of_int (round_half_even (x / ulp_of x)) - x / ulp_of x) * ulp_of x
        = nearest_double x - x"
      using u by (simp add: nearest_double_def left_diff_distrib)
    finally show ?thesis .
  qed
  ultimately show ?thesis by simp
qed

lemma ulp_of_normal:
  assumes "pow2 (- 1022) \<le> \<bar>x\<bar>"
  shows "ulp_of x / 2 \<le> \<bar>x\<bar> / 2 ^ 53"
proof -
  have x: "x \<noteq> 0" using assms pow2_pos [of "- 1022"] by auto
  have "pow2 (- 1022) < pow2 (binexp x + 1)"
    using assms binexp_bounds(2) [OF x] by (rule le_less_trans)
  then have e: "- 1022 \<le> binexp x" by (simp add: pow2_less)
  then have "ulp_of x = pow2 (binexp x + (- 52))" by (simp add: ulp_of_def max_def)
  also have "\<dots> = pow2 (binexp x) * pow2 (- 52)" by (rule pow2_add)
  finally have "ulp_of x / 2 = pow2 (binexp x) / 2 ^ 53" by (simp add: pow2_def)
  also have "\<dots> \<le> \<bar>x\<bar> / 2 ^ 53"
    using binexp_bounds(1) [OF x] by (simp add: divide_right_mono)
  finally show ?thesis .
qed

lemma nearest_double_bounded:
  assumes "\<bar>x\<bar> \<le> max_double"
  shows "\<bar>nearest_double x\<bar> \<le> max_double"
proof (cases "x = 0")
  case True
  then show ?thesis using assms by (simp add: nearest_double_def round_half_even_def)
next
  case False
  define e where "e = max (binexp x) (- 1022)"
  have u: "ulp_of x = pow2 (e - 52)" by (simp add: ulp_of_def e_def)
  have "max_double < pow2 1024" by (simp add: max_double_def pow2_def)
  with assms have "\<bar>x\<bar> < pow2 1024" by simp
  with binexp_bounds(1) [OF False] have "pow2 (binexp x) < pow2 1024" by simp
  then have "binexp x < 1024" by (simp add: pow2_less)
  then have e: "e \<le> 1023" by (simp add: e_def)
  define d where "d = nat (1023 - e)"
  define N :: int where "N = (2 ^ 53 - 1) * 2 ^ d"
  have "pow2 971 = pow2 ((e - 52) + int d)" using e by (simp add: d_def)
  also have "\<dots> = pow2 (e - 52) * pow2 (int d)" by (rule pow2_add)
  also have "pow2 (int d) = 2 ^ d" by (simp add: pow2_def)
  finally have m: "max_double = of_int N * ulp_of x"
    by (simp add: max_double_def u N_def)
  have "\<bar>x\<bar> / ulp_of x \<le> of_int N"
    using assms ulp_of_pos [of x] by (simp add: m field_simps)
  then have "\<bar>x / ulp_of x\<bar> \<le> of_int N"
    using ulp_of_pos [of x] by simp
  then have "\<bar>round_half_even (x / ulp_of x)\<bar> \<le> N"
    by (rule round_half_even_abs_le)
  then have "\<bar>of_int (round_half_even (x / ulp_of x)) :: rat\<bar> \<le> of_int N"
    by (metis of_int_abs of_int_le_iff)
  then have "\<bar>of_int (round_half_even (x / ulp_of x)) :: rat\<bar> * ulp_of x
      \<le> of_int N * ulp_of x"
    using ulp_of_pos [of x] by (simp only: mult_le_cancel_right) simp
  moreover have "\<bar>nearest_double x\<bar> = \<bar>of_int (round_half_even (x / ulp_of x)) :: rat\<bar> * ulp_of x"
    using ulp_of_pos [of x] by (simp add: nearest_double_def abs_mult)
  ultimately show ?thesis
    by (simp only: m)
qed

lemma binexp_less: "x \<noteq> 0 \<Longrightarrow> \<bar>x\<bar> < pow2 n \<Longrightarrow> binexp x < n"
  using binexp_bounds(1) [of x] pow2_less [of "binexp x" n] by simp

lemma round_double_normal:
  assumes "pow2 (- 1022) \<le> \<bar>x\<bar>" and "\<bar>x\<bar> \<le> max_double"
  shows "round_double s x = Finite (nearest_double x)"
    and "\<bar>nearest_double x - x\<bar> \<le> \<bar>x\<bar> / 2 ^ 53"
proof -
  have x: "x \<noteq> 0" "0 < \<bar>x\<bar>" using assms(1) pow2_pos [of "- 1022"] by auto
  show c: "\<bar>nearest_double x - x\<bar> \<le> \<bar>x\<bar> / 2 ^ 53"
    using nearest_double_close [of x] ulp_of_normal [OF assms(1)] by simp
  have "\<bar>x\<bar> / 2 ^ 53 < \<bar>x\<bar>" using x by simp
  with c have y: "nearest_double x \<noteq> 0" by auto
  have "max_double < pow2 1024" by (simp add: max_double_def pow2_def)
  with nearest_double_bounded [OF assms(2)] have "\<bar>nearest_double x\<bar> < pow2 1024" by simp
  with y have "binexp (nearest_double x) < 1024" by (rule binexp_less)
  with x y show "round_double s x = Finite (nearest_double x)"
    by (simp add: round_double_def)
qed
lemma nearest_double_zero: "nearest_double 0 = 0"
  by (simp add: nearest_double_def round_half_even_def)

lemma max_double_less: "max_double < pow2 1024"
  by (simp add: max_double_def pow2_def)

lemma round_double_value:
  assumes "\<bar>x\<bar> \<le> max_double"
  shows "is_finite (round_double s x)" and "double_value (round_double s x) = nearest_double x"
proof -
  have "is_finite (round_double s x) \<and> double_value (round_double s x) = nearest_double x"
  proof (cases "x = 0 \<or> nearest_double x = 0")
    case True
    then show ?thesis
      by (auto simp: round_double_def signed_zero_def nearest_double_zero Let_def)
  next
    case False
    have "\<bar>nearest_double x\<bar> < pow2 1024"
      using nearest_double_bounded [OF assms] max_double_less by simp
    with False have "binexp (nearest_double x) < 1024" by (simp add: binexp_less)
    with False show ?thesis by (simp add: round_double_def Let_def)
  qed
  then show "is_finite (round_double s x)"
    and "double_value (round_double s x) = nearest_double x" by simp_all
qed

lemma nearest_double_error: "\<bar>nearest_double x - x\<bar> \<le> \<bar>x\<bar> / 2 ^ 53 + 1 / 2 ^ 1075"
proof (cases "pow2 (- 1022) \<le> \<bar>x\<bar>")
  case True
  have "\<bar>nearest_double x - x\<bar> \<le> ulp_of x / 2" by (rule nearest_double_close)
  also have "\<dots> \<le> \<bar>x\<bar> / 2 ^ 53" using True by (rule ulp_of_normal)
  finally show ?thesis by simp
next
  case False
  show ?thesis
  proof (cases "x = 0")
    case True
    then show ?thesis by (simp add: nearest_double_zero)
  next
    case x: False
    from False have "\<bar>x\<bar> < pow2 (- 1022)" by simp
    with x have "binexp x < - 1022" by (rule binexp_less)
    then have "ulp_of x = pow2 (- 1074)" by (simp add: ulp_of_def max_def)
    then have "ulp_of x / 2 = 1 / 2 ^ 1075" by (simp add: pow2_def)
    with nearest_double_close [of x] have "\<bar>nearest_double x - x\<bar> \<le> 1 / 2 ^ 1075" by simp
    moreover have "0 \<le> \<bar>x\<bar> / 2 ^ 53" by simp
    ultimately show ?thesis by linarith
  qed
qed

lemma double_div_finite:
  "is_finite a \<Longrightarrow> y \<noteq> 0 \<Longrightarrow>
   double_div a (Finite y) = round_double (sign_bit a \<noteq> (y < 0)) (double_value a / y)"
  by (cases a) (simp_all add: double_div_def is_zero_def)

lemma double_sub_finite:
  "is_finite a \<Longrightarrow>
   double_sub a (Finite y) = round_double (sign_bit a \<and> \<not> y < 0) (double_value a - y)"
  by (cases a) (simp_all add: double_sub_def)

lemma double_mul_finite:
  "is_finite a \<Longrightarrow>
   double_mul a (Finite y) = round_double (sign_bit a \<noteq> (y < 0)) (double_value a * y)"
  by (cases a) (simp_all add: double_mul_def)

lemma py_round2_value:
  assumes "is_finite a"
    and "\<bar>of_int (round_half_even (double_value a * 100)) / 100\<bar> \<le> max_double"
  shows "is_finite (py_round2 a)"
    and "double_value (py_round2 a) = nearest_double (of_int (round_half_even (double_value a * 100)) / 100)"
proof -
  have "is_finite (py_round2 a) \<and>
    double_value (py_round2 a) = nearest_double (of_int (round_half_even (double_value a * 100)) / 100)"
  proof (cases a)
    case (Finite x)
    then show ?thesis
      using round_double_value [OF assms(2), of "x < 0"] by (simp add: py_round2_def)
  next
    case MinusZero
    then show ?thesis
      by (simp add: py_round2_def round_half_even_def nearest_double_zero)
  qed (use assms(1) in simp_all)
  then show "is_finite (py_round2 a)"
    and "double_value (py_round2 a) = nearest_double (of_int (round_half_even (double_value a * 100)) / 100)"
    by simp_all
qed

lemma premium_arith:
  fixes A B C :: rat
  assumes 1: "aw \<le> awR + aRv + avE"
    and 2: "aR \<le> av + aRv"
    and 3: "av \<le> 100 * A + avE"
    and 4: "a_t \<le> aT + atT"
    and 5: "avE \<le> avV + 100 * atT + 100 * adDB + 100 * aqQB"
    and 6: "aT \<le> aDB + adDB"
    and 7: "adDB \<le> aDB / 2 ^ 53 + B / 2 ^ 1075"
    and 8: "aDB \<le> A + aqQB"
    and 9: "aqQB \<le> C / 2 ^ 53 + B / 2 ^ 1075"
    and 10: "C \<le> A + 1" and A: "0 \<le> A" and 13: "B \<le> 2 ^ 200"
    and 14: "atT \<le> aT / 2 ^ 53 + 1 / 2 ^ 1075"
    and 15: "avV \<le> (100 * a_t) / 2 ^ 53 + 1 / 2 ^ 1075"
    and 16: "aRv \<le> 1 / 200"
    and 17: "awR \<le> aR / 2 ^ 53 + 1 / 2 ^ 1075"
  shows "aw \<le> 1 / 200 + (100 * A + 21) / 2 ^ 50"
proof -
  have h: "B / 2 ^ 1075 \<le> 1 / 2 ^ 875" using 13 by simp
  have a1: "aqQB \<le> (A + 1001 / 1000) / 2 ^ 53" using 9 10 h by (simp add: field_simps)
  have b1: "aDB \<le> 1001 / 1000 * A + 1 / 1000" using 8 a1 A by (simp add: field_simps)
  have a2: "adDB \<le> (1001 / 1000 * A + 2 / 1000) / 2 ^ 53" using 7 b1 h by (simp add: field_simps)
  have b2: "aT \<le> 1002 / 1000 * A + 2 / 1000" using 6 b1 a2 A by (simp add: field_simps)
  have a3: "atT \<le> (1002 / 1000 * A + 3 / 1000) / 2 ^ 53" using 14 b2 by (simp add: field_simps)
  have b3: "a_t \<le> 1003 / 1000 * A + 3 / 1000" using 4 b2 a3 A by (simp add: field_simps)
  have a4: "avV \<le> (1003 / 10 * A + 1) / 2 ^ 53" using 15 b3 by (simp add: field_simps)
  have a5: "avE \<le> (401 * A + 102) / 2 ^ 53" using 5 a1 a2 a3 a4 A by (simp add: field_simps)
  have b5: "aR \<le> 101 * A + 1" using 2 3 16 a5 A by (simp add: field_simps)
  have a6: "awR \<le> (101 * A + 2) / 2 ^ 53" using 17 b5 by (simp add: field_simps)
  show ?thesis using 1 16 a5 a6 A by (simp add: field_simps)
qed

lemma premium_close:
  fixes p r b :: rat
  assumes r: "r \<noteq> 0"
    and b1: "1 / 2 ^ 200 \<le> \<bar>b\<bar>" and b2: "\<bar>b\<bar> \<le> 2 ^ 200"
    and pr: "\<bar>p / r\<bar> \<le> 2 ^ 200"
  shows "\<exists>w. calculate_premium (Finite p) (Finite r) (Finite b) = Inr w \<and> is_finite w
    \<and> \<bar>double_value w - ((p / r - b) / b) * 100\<bar>
        \<le> 1 / 200 + (\<bar>((p / r - b) / b) * 100\<bar> + 21) / 2 ^ 50"
proof -
  have b: "b \<noteq> 0" using b1 by auto
  have md: "(2::rat) ^ 500 \<le> max_double" by (simp add: max_double_def pow2_def)
  define B where "B = 1 / \<bar>b\<bar>"
  have B: "0 < B" "B \<le> 2 ^ 200" "\<bar>b\<bar> * B = 1"
    using b b1 by (simp_all add: B_def field_simps)
  define Q where "Q = p / r"
  define i1 where "i1 = double_div (Finite p) (Finite r)"
  define q where "q = nearest_double Q"
  define D where "D = q - b"
  define i2 where "i2 = double_sub i1 (Finite b)"
  define d where "d = nearest_double D"
  define T where "T = d / b"
  define i3 where "i3 = double_div i2 (Finite b)"
  define t where "t = nearest_double T"
  define V where "V = t * 100"
  define i4 where "i4 = double_mul i3 (Finite 100)"
  define v where "v = nearest_double V"
  define R :: rat where "R = of_int (round_half_even (v * 100)) / 100"
  define w where "w = nearest_double R"
  define E where "E = ((Q - b) / b) * 100"
  define A where "A = \<bar>Q - b\<bar> * B"
  define C where "C = \<bar>Q\<bar> * B"
  have Q: "\<bar>Q\<bar> \<le> 2 ^ 200" using pr by (simp add: Q_def)
  have A: "0 \<le> A" using B(1) by (simp add: A_def)

  have Qm: "\<bar>Q\<bar> \<le> max_double" using Q md by simp
  have i1: "is_finite i1" "double_value i1 = q"
    using round_double_value [OF Qm] r
    by (simp_all add: i1_def q_def Q_def double_div_finite)
  have e1: "\<bar>q - Q\<bar> \<le> \<bar>Q\<bar> / 2 ^ 53 + 1 / 2 ^ 1075"
    unfolding q_def by (rule nearest_double_error)

  have D1: "\<bar>D\<bar> \<le> \<bar>Q - b\<bar> + \<bar>q - Q\<bar>" by (simp add: D_def)
  have Qb: "\<bar>Q - b\<bar> \<le> \<bar>Q\<bar> + \<bar>b\<bar>" by simp
  have D2: "\<bar>D\<bar> \<le> 2 ^ 202" using D1 e1 Q b2 Qb by simp
  have Dm: "\<bar>D\<bar> \<le> max_double" using D2 md by simp
  have i2: "is_finite i2" "double_value i2 = d"
    using round_double_value [OF Dm] i1
    by (simp_all add: i2_def d_def D_def double_sub_finite)
  have e2: "\<bar>d - D\<bar> \<le> \<bar>D\<bar> / 2 ^ 53 + 1 / 2 ^ 1075"
    unfolding d_def by (rule nearest_double_error)
  have d2: "\<bar>d\<bar> \<le> 2 ^ 203" using e2 D2 by simp

  have T1: "\<bar>T\<bar> = \<bar>d\<bar> * B" by (simp add: T_def B_def abs_divide)
  have "\<bar>d\<bar> * B \<le> 2 ^ 203 * 2 ^ 200"
    using d2 B by (intro mult_mono) simp_all
  then have T2: "\<bar>T\<bar> \<le> 2 ^ 403" by (simp add: T1)
  have Tm: "\<bar>T\<bar> \<le> max_double" using T2 md by simp
  have i3: "is_finite i3" "double_value i3 = t"
    using round_double_value [OF Tm] i2 b
    by (simp_all add: i3_def t_def T_def double_div_finite)
  have e3: "\<bar>t - T\<bar> \<le> \<bar>T\<bar> / 2 ^ 53 + 1 / 2 ^ 1075"
    unfolding t_def by (rule nearest_double_error)
  have t2: "\<bar>t\<bar> \<le> 2 ^ 404" using e3 T2 by simp

  have V1: "\<bar>V\<bar> = 100 * \<bar>t\<bar>" by (simp add: V_def abs_mult)
  have V2: "\<bar>V\<bar> \<le> 2 ^ 411" using t2 by (simp add: V1)
  have Vm: "\<bar>V\<bar> \<le> max_double" using V2 md by simp
  have i4: "is_finite i4" "double_value i4 = v"
    using round_double_value [OF Vm] i3
    by (simp_all add: i4_def v_def V_def double_mul_finite)
  have e4: "\<bar>v - V\<bar> \<le> \<bar>V\<bar> / 2 ^ 53 + 1 / 2 ^ 1075"
    unfolding v_def by (rule nearest_double_error)
  have v2: "\<bar>v\<bar> \<le> 2 ^ 412" using e4 V2 by simp

  have "\<bar>of_int (round_half_even (v * 100)) - v * 100\<bar> \<le> 1 / 2"
    by (rule round_half_even_close)
  then have "\<bar>(of_int (round_half_even (v * 100)) - v * 100) / 100\<bar> \<le> (1 / 2) / 100"
    by (simp only: abs_divide) simp
  then have e5: "\<bar>R - v\<bar> \<le> 1 / 200" by (simp add: R_def diff_divide_distrib)
  have RR: "\<bar>R\<bar> \<le> \<bar>v\<bar> + \<bar>R - v\<bar>" by simp
  have R2: "\<bar>R\<bar> \<le> 2 ^ 413" using e5 v2 RR by simp
  have Rm: "\<bar>of_int (round_half_even (double_value i4 * 100)) / 100\<bar> \<le> max_double"
    using R2 md by (simp add: i4 R_def)
  have res: "is_finite (py_round2 i4)" "double_value (py_round2 i4) = w"
    using py_round2_value [OF i4(1) Rm] by (simp_all add: w_def R_def i4)
  have e6: "\<bar>w - R\<bar> \<le> \<bar>R\<bar> / 2 ^ 53 + 1 / 2 ^ 1075"
    unfolding w_def by (rule nearest_double_error)

  have C: "C \<le> A + 1"
  proof -
    have "\<bar>Q\<bar> \<le> \<bar>Q - b\<bar> + \<bar>b\<bar>" by simp
    then have "\<bar>Q\<bar> * B \<le> (\<bar>Q - b\<bar> + \<bar>b\<bar>) * B"
      using B(1) by (simp only: mult_le_cancel_right) simp
    then show ?thesis by (simp add: C_def A_def distrib_right B(3))
  qed
  have a1: "\<bar>q - Q\<bar> * B \<le> C / 2 ^ 53 + B / 2 ^ 1075"
  proof -
    have "\<bar>q - Q\<bar> * B \<le> (\<bar>Q\<bar> / 2 ^ 53 + 1 / 2 ^ 1075) * B"
      using e1 B(1) by (simp only: mult_le_cancel_right) simp
    then show ?thesis by (simp add: C_def distrib_right)
  qed
  have DB: "\<bar>D\<bar> * B \<le> A + \<bar>q - Q\<bar> * B"
  proof -
    have "\<bar>D\<bar> * B \<le> (\<bar>Q - b\<bar> + \<bar>q - Q\<bar>) * B"
      using D1 B(1) by (simp only: mult_le_cancel_right) simp
    then show ?thesis by (simp add: A_def distrib_right)
  qed
  have a2: "\<bar>d - D\<bar> * B \<le> (\<bar>D\<bar> * B) / 2 ^ 53 + B / 2 ^ 1075"
  proof -
    have "\<bar>d - D\<bar> * B \<le> (\<bar>D\<bar> / 2 ^ 53 + 1 / 2 ^ 1075) * B"
      using e2 B(1) by (simp only: mult_le_cancel_right) simp
    then show ?thesis by (simp add: distrib_right)
  qed
  have dB: "\<bar>T\<bar> \<le> \<bar>D\<bar> * B + \<bar>d - D\<bar> * B"
  proof -
    have "\<bar>d\<bar> \<le> \<bar>D\<bar> + \<bar>d - D\<bar>" by simp
    then have "\<bar>d\<bar> * B \<le> (\<bar>D\<bar> + \<bar>d - D\<bar>) * B"
      using B(1) by (simp only: mult_le_cancel_right) simp
    then show ?thesis by (simp add: T1 distrib_right)
  qed
  define x1 where "x1 = q - Q"
  define x2 where "x2 = d - D"
  define x3 where "x3 = t - T"
  define x4 where "x4 = v - V"
  have split: "v - E = x4 + 100 * x3 + 100 * (x2 / b) + 100 * (x1 / b)"
    using b by (simp add: E_def V_def T_def D_def x1_def x2_def x3_def x4_def field_simps)
  have "\<bar>v - E\<bar> \<le> \<bar>x4\<bar> + \<bar>100 * x3\<bar> + \<bar>100 * (x2 / b)\<bar> + \<bar>100 * (x1 / b)\<bar>"
    unfolding split by (intro order_trans [OF abs_triangle_ineq] add_mono order_refl)
  moreover have "\<bar>100 * x3\<bar> = 100 * \<bar>x3\<bar>" by (simp add: abs_mult)
  moreover have "\<bar>100 * (x2 / b)\<bar> = 100 * (\<bar>x2\<bar> * B)" by (simp add: abs_mult abs_divide B_def)
  moreover have "\<bar>100 * (x1 / b)\<bar> = 100 * (\<bar>x1\<bar> * B)" by (simp add: abs_mult abs_divide B_def)
  ultimately have "\<bar>v - E\<bar> \<le> \<bar>x4\<bar> + 100 * \<bar>x3\<bar> + 100 * (\<bar>x2\<bar> * B) + 100 * (\<bar>x1\<bar> * B)"
    by (simp only:)
  then have vE: "\<bar>v - E\<bar> \<le> \<bar>v - V\<bar> + 100 * \<bar>t - T\<bar> + 100 * (\<bar>d - D\<bar> * B) + 100 * (\<bar>q - Q\<bar> * B)"
    by (simp only: x1_def x2_def x3_def x4_def)
  have EA: "\<bar>E\<bar> = 100 * A"
  proof -
    have "\<bar>E\<bar> = \<bar>(Q - b) / b\<bar> * \<bar>100\<bar>" unfolding E_def by (rule abs_mult)
    also have "\<bar>(Q - b) / b\<bar> = \<bar>Q - b\<bar> * B" by (simp add: abs_divide B_def)
    finally show ?thesis by (simp add: A_def)
  qed
  have tT: "\<bar>t\<bar> \<le> \<bar>T\<bar> + \<bar>t - T\<bar>" by simp
  have vv: "\<bar>v\<bar> \<le> \<bar>E\<bar> + \<bar>v - E\<bar>" by simp
  have wE: "\<bar>w - E\<bar> \<le> \<bar>w - R\<bar> + \<bar>R - v\<bar> + \<bar>v - E\<bar>" by simp
  have vv': "\<bar>v\<bar> \<le> 100 * A + \<bar>v - E\<bar>" using vv by (simp only: EA)
  have e4': "\<bar>v - V\<bar> \<le> (100 * \<bar>t\<bar>) / 2 ^ 53 + 1 / 2 ^ 1075" using e4 by (simp only: V1)
  have "\<bar>w - E\<bar> \<le> 1 / 200 + (100 * A + 21) / 2 ^ 50"
    by (rule premium_arith [OF wE RR vv' tT vE dB a2 DB a1 C A B(2) e3 e4' e5 e6])
  then have final: "\<bar>w - E\<bar> \<le> 1 / 200 + (\<bar>E\<bar> + 21) / 2 ^ 50"
    by (simp only: EA)
  have "calculate_premium (Finite p) (Finite r) (Finite b) = Inr (py_round2 i4)"
    using r b by (simp add: calculate_premium_def py_truediv_def and_then_def is_zero_def
        i4_def i3_def i2_def i1_def)
  with res final show ?thesis by (simp add: E_def Q_def)
qed
lemma ulp_of_exp: "ulp_of x * 2 ^ 53 = pow2 (max (binexp x) (- 1022) + 1)"
proof -
  have "max (binexp x) (- 1022) + 1 = (max (binexp x) (- 1022) - 52) + 53" by simp
  then have "pow2 (max (binexp x) (- 1022) + 1) = pow2 ((max (binexp x) (- 1022) - 52) + 53)"
    by (simp only:)
  also have "\<dots> = pow2 (max (binexp x) (- 1022) - 52) * pow2 53"
    by (rule pow2_add)
  finally show ?thesis by (simp add: ulp_of_def pow2_def)
qed

lemma nearest_double_grid:
  assumes "x \<noteq> 0"
  shows "\<bar>round_half_even (x / ulp_of x)\<bar> \<le> 2 ^ 53"
proof -
  have u: "0 < ulp_of x" by (rule ulp_of_pos)
  have "\<bar>x\<bar> < pow2 (binexp x + 1)" using assms by (rule binexp_bounds)
  also have "\<dots> \<le> pow2 (max (binexp x) (- 1022) + 1)" by (simp add: pow2_le)
  also have "\<dots> = ulp_of x * 2 ^ 53" by (simp only: ulp_of_exp)
  finally have "\<bar>x\<bar> / ulp_of x \<le> 2 ^ 53" using u by (simp add: field_simps)
  then have "\<bar>x / ulp_of x\<bar> \<le> of_int (2 ^ 53)" using u by simp
  then show ?thesis by (rule round_half_even_abs_le)
qed

lemma nearest_double_abs:
  "\<bar>nearest_double x\<bar> = of_int \<bar>round_half_even (x / ulp_of x)\<bar> * ulp_of x"
  using ulp_of_pos [of x] by (simp add: nearest_double_def abs_mult)

lemma nearest_double_ge:
  assumes "x \<noteq> 0" and "- 1022 \<le> binexp x"
  shows "pow2 (binexp x) \<le> \<bar>nearest_double x\<bar>"
proof -
  have u: "0 < ulp_of x" by (rule ulp_of_pos)
  have e: "ulp_of x = pow2 (binexp x - 52)" using assms(2) by (simp add: ulp_of_def max_def)
  have "pow2 (binexp x) = pow2 ((binexp x - 52) + 52)" by simp
  also have "\<dots> = pow2 (binexp x - 52) * pow2 52" by (rule pow2_add)
  finally have p: "pow2 (binexp x) = of_int (2 ^ 52) * ulp_of x" by (simp add: e pow2_def)
  have "of_int (2 ^ 52) * ulp_of x \<le> \<bar>x\<bar>"
    using binexp_bounds(1) [OF assms(1)] by (simp only: p)
  then have a: "of_int (2 ^ 52) \<le> \<bar>x\<bar> / ulp_of x" using u by (simp add: field_simps)
  have "2 ^ 52 \<le> \<bar>round_half_even (x / ulp_of x)\<bar>"
  proof (cases "0 \<le> x")
    case True
    then have "of_int (2 ^ 52) \<le> x / ulp_of x" using a by simp
    then have "2 ^ 52 \<le> round_half_even (x / ulp_of x)" by (rule round_half_even_ge)
    then show ?thesis by simp
  next
    case False
    then have "x / ulp_of x \<le> of_int (- (2 ^ 52))" using a by simp
    then have "round_half_even (x / ulp_of x) \<le> - (2 ^ 52)" by (rule round_half_even_le)
    then show ?thesis by simp
  qed
  then have "(of_int (2 ^ 52) :: rat) \<le> of_int \<bar>round_half_even (x / ulp_of x)\<bar>"
    by (simp only: of_int_le_iff)
  then have "of_int (2 ^ 52) * ulp_of x \<le> of_int \<bar>round_half_even (x / ulp_of x)\<bar> * ulp_of x"
    using u by (simp only: mult_le_cancel_right) simp
  then show ?thesis by (simp only: p nearest_double_abs)
qed

lemma finite_bounded:
  assumes x: "x \<noteq> 0" and v: "nearest_double x \<noteq> 0"
    and f: "binexp (nearest_double x) < 1024"
  shows "\<bar>nearest_double x\<bar> \<le> max_double"
proof -
  define e where "e = max (binexp x) (- 1022)"
  define n where "n = \<bar>round_half_even (x / ulp_of x)\<bar>"
  have u: "ulp_of x = pow2 (e - 52)" by (simp add: ulp_of_def e_def)
  have av: "\<bar>nearest_double x\<bar> = of_int n * ulp_of x"
    by (simp only: n_def nearest_double_abs)
  have lt: "\<bar>nearest_double x\<bar> < pow2 1024"
  proof -
    have "\<bar>nearest_double x\<bar> < pow2 (binexp (nearest_double x) + 1)"
      using v by (rule binexp_bounds)
    also have "\<dots> \<le> pow2 1024" using f by (simp add: pow2_le)
    finally show ?thesis .
  qed
  have e: "e \<le> 1023"
  proof (rule ccontr)
    assume "\<not> e \<le> 1023"
    then have b: "1024 \<le> binexp x" by (simp add: e_def)
    then have "pow2 1024 \<le> pow2 (binexp x)" by (simp add: pow2_le)
    also have "\<dots> \<le> \<bar>nearest_double x\<bar>" using x b by (intro nearest_double_ge) simp_all
    finally show False using lt by simp
  qed
  have n: "n \<le> 2 ^ 53" unfolding n_def using x by (rule nearest_double_grid)
  show ?thesis
  proof (cases "n = 2 ^ 53")
    case True
    have "\<bar>nearest_double x\<bar> = pow2 (e + 1)"
      using ulp_of_exp [of x] by (simp add: av True e_def mult.commute)
    with lt have "e + 1 < 1024" by (simp add: pow2_less)
    then have "pow2 (e + 1) \<le> pow2 1023" by (simp add: pow2_le)
    also have "\<dots> \<le> max_double" by (simp add: max_double_def pow2_def)
    finally show ?thesis using \<open>\<bar>nearest_double x\<bar> = pow2 (e + 1)\<close> by simp
  next
    case False
    with n have "n \<le> 2 ^ 53 - 1" by simp
    then have "(of_int n :: rat) \<le> of_int (2 ^ 53 - 1)" by (simp only: of_int_le_iff)
    moreover have "ulp_of x \<le> pow2 971" using e by (simp add: u pow2_le)
    moreover have "0 \<le> (of_int n :: rat)" by (simp add: n_def)
    ultimately have "of_int n * ulp_of x \<le> of_int (2 ^ 53 - 1) * pow2 971"
      using pow2_pos [of 971] ulp_of_pos [of x] by (intro mult_mono) simp_all
    then show ?thesis by (simp add: av max_double_def)
  qed
qed

lemma py_round2_finite:
  assumes "is_finite (round_double s x)"
  shows "is_finite (py_round2 (round_double s x))"
proof (cases "x = 0 \<or> nearest_double x = 0")
  case True
  then show ?thesis
    by (auto simp: round_double_def signed_zero_def py_round2_def Let_def
        round_half_even_def nearest_double_zero)
next
  case False
  define v where "v = nearest_double x"
  define R :: rat where "R = of_int (round_half_even (v * 100)) / 100"
  from False assms have f: "binexp v < 1024" and d: "round_double s x = Finite v"
    by (auto simp: round_double_def Let_def v_def split: if_splits)
  have vm: "\<bar>v\<bar> \<le> max_double"
    unfolding v_def using False f by (intro finite_bounded) (simp_all add: v_def)
  have "\<bar>R\<bar> \<le> max_double"
  proof (cases "max (binexp x) (- 1022) - 52 \<le> 0")
    case True
    then have "ulp_of x \<le> pow2 0" by (simp add: ulp_of_def pow2_le)
    then have u: "ulp_of x \<le> 1" by (simp add: pow2_def)
    have n: "\<bar>round_half_even (x / ulp_of x)\<bar> \<le> 2 ^ 53"
      using False by (intro nearest_double_grid) simp
    then have "(of_int \<bar>round_half_even (x / ulp_of x)\<bar> :: rat) \<le> of_int (2 ^ 53)"
      by (simp only: of_int_le_iff)
    then have "of_int \<bar>round_half_even (x / ulp_of x)\<bar> * ulp_of x \<le> of_int (2 ^ 53) * 1"
      using u ulp_of_pos [of x] by (intro mult_mono) simp_all
    then have v: "\<bar>v\<bar> \<le> 2 ^ 53" by (simp add: v_def nearest_double_abs)
    have "\<bar>of_int (round_half_even (v * 100)) - v * 100\<bar> \<le> 1 / 2"
      by (rule round_half_even_close)
    then have "\<bar>(of_int (round_half_even (v * 100)) - v * 100) / 100\<bar> \<le> (1 / 2) / 100"
      by (simp only: abs_divide) simp
    then have "\<bar>R - v\<bar> \<le> 1 / 200" by (simp add: R_def diff_divide_distrib)
    moreover have "\<bar>R\<bar> \<le> \<bar>v\<bar> + \<bar>R - v\<bar>" by simp
    ultimately have "\<bar>R\<bar> \<le> 2 ^ 54" using v by simp
    also have "\<dots> \<le> max_double" by (simp add: max_double_def pow2_def)
    finally show ?thesis .
  next
    case False
    then have "ulp_of x = of_int (2 ^ nat (max (binexp x) (- 1022) - 52))"
      by (simp add: ulp_of_def pow2_def)
    then have "v = of_int (round_half_even (x / ulp_of x) * 2 ^ nat (max (binexp x) (- 1022) - 52))"
      by (simp add: v_def nearest_double_def)
    then obtain m :: int where m: "v = of_int m" ..
    have "v * 100 = of_int (m * 100)" by (simp add: m)
    then have "round_half_even (v * 100) = m * 100"
      by (simp only: round_half_even_of_int)
    then have "R = v" by (simp add: R_def m)
    with vm show ?thesis by simp
  qed
  then have "is_finite (round_double (v < 0) R)" by (rule round_double_value)
  then show ?thesis by (simp add: d py_round2_def R_def)
qed
lemma round2_close: "\<bar>of_int (round_half_even (x * 100)) / 100 - x\<bar> \<le> 1 / 200"
proof -
  have "\<bar>of_int (round_half_even (x * 100)) - x * 100\<bar> \<le> 1 / 2"
    by (rule round_half_even_close)
  then have "\<bar>(of_int (round_half_even (x * 100)) - x * 100) / 100\<bar> \<le> (1 / 2) / 100"
    by (simp only: abs_divide) simp
  then show ?thesis
    by (simp add: diff_divide_distrib)
qed

lemma premium_guards:
  "is_zero r \<Longrightarrow> calculate_premium p r b = Inr (Finite 0)"
  "\<not> is_zero r \<Longrightarrow> is_zero b \<Longrightarrow>
     calculate_premium p r b = Inl (ZeroDivisionError ''float division by zero'')"
  "\<not> is_zero r \<Longrightarrow> \<not> is_zero b \<Longrightarrow>
     calculate_premium p r b =
       Inr (py_round2 (double_mul (double_div (double_sub (double_div p r) b) b) (Finite 100)))"
  by (simp_all add: calculate_premium_def py_truediv_def and_then_def)

lemma premium_example_sudan:
  "calculate_premium (Finite 2900) (Finite 600) (Finite 1) = Inr (float_literal (38333 / 100))"
  by code_simp

lemma premium_example_tie:
  "calculate_premium (Finite (803 / 8)) (Finite 100) (Finite 1) = Inr (float_literal (37 / 100))"
  by code_simp

lemma float_literal_sudan:
  "float_literal (38333 / 100) = Finite (6743612676405985 / 17592186044416)"
  by code_simp

text \<open>
  Claim C1, as the code has it. For an official rate that is a zero, \<open>calculate_premium\<close>
  returns \<open>0.0\<close> and does not raise. For an official rate that is not a zero and a base
  value that is a zero it raises \<open>ZeroDivisionError\<close>. In every other case it does not
  raise and returns \<open>round(x, 2)\<close>, where \<open>x\<close> is \<open>((p / r) - b) / b * 100\<close> evaluated
  in double arithmetic. On finite operands each of the four operations delivers its exact
  result rounded to the nearest double; the relative error of that rounding is at most
  \<open>1 / 2 ^ 53\<close> while the exact result lies between the smallest normal double and the
  largest double in magnitude. \<open>round(x, 2)\<close> of a finite \<open>x\<close> is the double nearest to
  the multiple of one hundredth that is nearest to \<open>x\<close> (a tie going to the even
  multiple), which is at most half a hundredth from \<open>x\<close>; it is finite for every finite
  double that an operation delivers. For finite arguments with an official rate that is not
  zero, a base value between \<open>1 / 2 ^ 200\<close> and \<open>2 ^ 200\<close> in magnitude and a ratio
  \<open>p / r\<close> of magnitude at most \<open>2 ^ 200\<close>, the value returned is finite and differs
  from the exact value \<open>e\<close> of \<open>((p / r) - b) / b * 100\<close> by at most
  \<open>1 / 200 + (\<bar>e\<bar> + 21) / 2 ^ 50\<close>. The worked example
  \<open>calculate_premium(2900, 600, 1.0)\<close> is \<open>383.33\<close>. The result is not always the
  rounding of the exact value: \<open>calculate_premium(100.375, 100.0, 1.0)\<close> is \<open>0.37\<close>,
  while the exact value \<open>0.375\<close> rounds to \<open>0.38\<close>.
\<close>

theorem calculate_premium_formula:
  "(is_zero r \<longrightarrow> calculate_premium p r b = Inr (Finite 0))
   \<and> (\<not> is_zero r \<and> is_zero b \<longrightarrow>
        calculate_premium p r b = Inl (ZeroDivisionError ''float division by zero''))
   \<and> (\<not> is_zero r \<and> \<not> is_zero b \<longrightarrow>
        calculate_premium p r b =
          Inr (py_round2 (double_mul (double_div (double_sub (double_div p r) b) b) (Finite 100))))
   \<and> (y \<noteq> 0 \<longrightarrow>
        double_div (Finite x) (Finite y) = round_double ((x < 0) \<noteq> (y < 0)) (x / y))
   \<and> double_sub (Finite x) (Finite y) = round_double (x < 0 \<and> \<not> y < 0) (x - y)
   \<and> double_mul (Finite x) (Finite y) = round_double ((x < 0) \<noteq> (y < 0)) (x * y)
   \<and> (pow2 (- 1022) \<le> \<bar>z\<bar> \<and> \<bar>z\<bar> \<le> max_double \<longrightarrow>
        round_double s z = Finite (nearest_double z)
        \<and> \<bar>nearest_double z - z\<bar> \<le> \<bar>z\<bar> / 2 ^ 53)
   \<and> py_round2 (Finite z) = round_double (z < 0) (of_int (round_half_even (z * 100)) / 100)
   \<and> \<bar>of_int (round_half_even (z * 100)) / 100 - z\<bar> \<le> 1 / 200
   \<and> (is_finite (round_double s z) \<longrightarrow> is_finite (py_round2 (round_double s z)))
   \<and> (rq \<noteq> 0 \<and> 1 / 2 ^ 200 \<le> \<bar>bq\<bar> \<and> \<bar>bq\<bar> \<le> 2 ^ 200 \<and> \<bar>pq / rq\<bar> \<le> 2 ^ 200 \<longrightarrow>
        (\<exists>w. calculate_premium (Finite pq) (Finite rq) (Finite bq) = Inr w \<and> is_finite w
           \<and> \<bar>double_value w - ((pq / rq - bq) / bq) * 100\<bar>
               \<le> 1 / 200 + (\<bar>((pq / rq - bq) / bq) * 100\<bar> + 21) / 2 ^ 50))
   \<and> calculate_premium (Finite 2900) (Finite 600) (Finite 1) = Inr (float_literal (38333 / 100))
   \<and> calculate_premium (Finite (803 / 8)) (Finite 100) (Finite 1) = Inr (float_literal (37 / 100))
   \<and> round_half_even (((((803 / 8) / 100 - 1) / 1) * 100) * 100) = 38"
proof -
  have 1: "is_zero r \<longrightarrow> calculate_premium p r b = Inr (Finite 0)"
    by (simp add: premium_guards)
  have 2: "\<not> is_zero r \<and> is_zero b \<longrightarrow>
      calculate_premium p r b = Inl (ZeroDivisionError ''float division by zero'')"
    by (simp add: premium_guards)
  have 3: "\<not> is_zero r \<and> \<not> is_zero b \<longrightarrow>
      calculate_premium p r b =
        Inr (py_round2 (double_mul (double_div (double_sub (double_div p r) b) b) (Finite 100)))"
    by (simp add: premium_guards)
  have 4: "y \<noteq> 0 \<longrightarrow>
      double_div (Finite x) (Finite y) = round_double ((x < 0) \<noteq> (y < 0)) (x / y)"
    by (simp add: double_div_finite)
  have 5: "double_sub (Finite x) (Finite y) = round_double (x < 0 \<and> \<not> y < 0) (x - y)"
    by (simp add: double_sub_finite)
  have 6: "double_mul (Finite x) (Finite y) = round_double ((x < 0) \<noteq> (y < 0)) (x * y)"
    by (simp add: double_mul_finite)
  have 7: "pow2 (- 1022) \<le> \<bar>z\<bar> \<and> \<bar>z\<bar> \<le> max_double \<longrightarrow>
      round_double s z = Finite (nearest_double z)
      \<and> \<bar>nearest_double z - z\<bar> \<le> \<bar>z\<bar> / 2 ^ 53"
    using round_double_normal(1) [where x = z and s = s] round_double_normal(2) [where x = z] by blast
  have 8: "py_round2 (Finite z) = round_double (z < 0) (of_int (round_half_even (z * 100)) / 100)"
    by (simp add: py_round2_def)
  have 9: "\<bar>of_int (round_half_even (z * 100)) / 100 - z\<bar> \<le> 1 / 200"
    by (rule round2_close)
  have 10: "is_finite (round_double s z) \<longrightarrow> is_finite (py_round2 (round_double s z))"
    using py_round2_finite [where s = s and x = z] by blast
  have 11: "rq \<noteq> 0 \<and> 1 / 2 ^ 200 \<le> \<bar>bq\<bar> \<and> \<bar>bq\<bar> \<le> 2 ^ 200 \<and> \<bar>pq / rq\<bar> \<le> 2 ^ 200 \<longrightarrow>
      (\<exists>w. calculate_premium (Finite pq) (Finite rq) (Finite bq) = Inr w \<and> is_finite w
         \<and> \<bar>double_value w - ((pq / rq - bq) / bq) * 100\<bar>
             \<le> 1 / 200 + (\<bar>((pq / rq - bq) / bq) * 100\<bar> + 21) / 2 ^ 50)"
    using premium_close [where p = pq and r = rq and b = bq] by blast
  have 12: "round_half_even (((((803 / 8) / 100 - 1) / 1) * 100) * 100) = 38"
    by code_simp
  from 1 2 3 4 5 6 7 8 9 10 11 premium_example_sudan premium_example_tie 12
  show ?thesis by (intro conjI)
qed

text \<open>
  The formula at a price of 1050 and an official rate of 890, with an official rate and a
  base value that are the zero with the minus sign, and the rounding of the ratio
  \<open>1050 / 890\<close>.
\<close>

theorem calculate_premium_formula_witness:
  "calculate_premium (Finite 1050) MinusZero (Finite 1) = Inr (Finite 0)
   \<and> calculate_premium (Finite 1050) (Finite 890) MinusZero =
       Inl (ZeroDivisionError ''float division by zero'')
   \<and> calculate_premium (Finite 1050) (Finite 890) (Finite 1) = Inr (float_literal (1798 / 100))
   \<and> double_div (Finite 1050) (Finite 890) = round_double False (1050 / 890)
   \<and> round_double False (1050 / 890) = Finite (nearest_double (1050 / 890))
   \<and> \<bar>nearest_double (1050 / 890) - 1050 / 890\<bar> \<le> \<bar>1050 / 890\<bar> / 2 ^ 53
   \<and> is_finite (py_round2 (round_double False (1050 / 890)))
   \<and> (\<exists>w. calculate_premium (Finite 1050) (Finite 890) (Finite 1) = Inr w \<and> is_finite w
        \<and> \<bar>double_value w - ((1050 / 890 - 1) / 1) * 100\<bar>
            \<le> 1 / 200 + (\<bar>((1050 / 890 - 1) / 1) * 100\<bar> + 21) / 2 ^ 50)"
proof -
  have z: "is_zero MinusZero" "\<not> is_zero (Finite 890)" "\<not> is_zero (Finite 1)"
    by (simp_all add: is_zero_def)
  have n: "pow2 (- 1022) \<le> \<bar>1050 / 890 :: rat\<bar> \<and> \<bar>1050 / 890 :: rat\<bar> \<le> max_double"
    by (simp add: pow2_def max_double_def)
  have c: "(890::rat) \<noteq> 0 \<and> 1 / 2 ^ 200 \<le> \<bar>1::rat\<bar> \<and> \<bar>1::rat\<bar> \<le> 2 ^ 200
      \<and> \<bar>1050 / 890 :: rat\<bar> \<le> 2 ^ 200"
    by simp
  have e: "py_round2 (double_mul (double_div (double_sub (double_div (Finite 1050) (Finite 890))
      (Finite 1)) (Finite 1)) (Finite 100)) = float_literal (1798 / 100)"
    by code_simp
  note a = calculate_premium_formula [where p = "Finite 1050" and r = MinusZero and b = "Finite 1"]
  note b = calculate_premium_formula [where p = "Finite 1050" and r = "Finite 890" and b = MinusZero]
  note t = calculate_premium_formula [where p = "Finite 1050" and r = "Finite 890" and b = "Finite 1"
      and x = 1050 and y = 890 and z = "1050 / 890" and s = False
      and pq = 1050 and rq = 890 and bq = 1]
  have 1: "calculate_premium (Finite 1050) MinusZero (Finite 1) = Inr (Finite 0)"
    using a z by blast
  have 2: "calculate_premium (Finite 1050) (Finite 890) MinusZero =
      Inl (ZeroDivisionError ''float division by zero'')"
    using b z by blast
  have "calculate_premium (Finite 1050) (Finite 890) (Finite 1) =
      Inr (py_round2 (double_mul (double_div (double_sub (double_div (Finite 1050) (Finite 890))
        (Finite 1)) (Finite 1)) (Finite 100)))"
    using t z by blast
  then have 3: "calculate_premium (Finite 1050) (Finite 890) (Finite 1) =
      Inr (float_literal (1798 / 100))"
    by (simp only: e)
  have "(890::rat) \<noteq> 0" by simp
  with t have 4: "double_div (Finite 1050) (Finite 890) = round_double False (1050 / 890)"
    by simp
  from t n have 5: "round_double False (1050 / 890) = Finite (nearest_double (1050 / 890))"
    and 6: "\<bar>nearest_double (1050 / 890) - 1050 / 890\<bar> \<le> \<bar>1050 / 890\<bar> / 2 ^ 53"
    by blast+
  have "is_finite (round_double False (1050 / 890))" by (simp only: 5 is_finite.simps)
  with t have 7: "is_finite (py_round2 (round_double False (1050 / 890)))" by blast
  from t c have 8: "\<exists>w. calculate_premium (Finite 1050) (Finite 890) (Finite 1) = Inr w \<and> is_finite w
        \<and> \<bar>double_value w - ((1050 / 890 - 1) / 1) * 100\<bar>
            \<le> 1 / 200 + (\<bar>((1050 / 890 - 1) / 1) * 100\<bar> + 21) / 2 ^ 50"
    by blast
  from 1 2 3 4 5 6 7 8 show ?thesis by (intro conjI)
qed

text \<open>
  Claim C1 as stated fails twice: the worked example is the double \<open>383.33\<close>, which is
  not within \<open>0.01\<close> of \<open>283.33\<close>, and with a base value of zero the call raises
  instead of returning.
\<close>

theorem calculate_premium_example_counterexample:
  "calculate_premium (Finite 2900) (Finite 600) (Finite 1) =
     Inr (Finite (6743612676405985 / 17592186044416))
   \<and> float_literal (38333 / 100) = Finite (6743612676405985 / 17592186044416)
   \<and> \<not> \<bar>(6743612676405985 / 17592186044416 :: rat) - 28333 / 100\<bar> \<le> 1 / 100
   \<and> calculate_premium (Finite 2900) (Finite 600) (Finite 0) =
       Inl (ZeroDivisionError ''float division by zero'')"
proof -
  have "calculate_premium (Finite 2900) (Finite 600) (Finite 1) =
      Inr (Finite (6743612676405985 / 17592186044416))"
    using premium_example_sudan by (simp only: float_literal_sudan)
  moreover have "calculate_premium (Finite 2900) (Finite 600) (Finite 0) =
      Inl (ZeroDivisionError ''float division by zero'')"
    by (simp add: premium_guards is_zero_def)
  moreover have "\<not> \<bar>(6743612676405985 / 17592186044416 :: rat) - 28333 / 100\<bar> \<le> 1 / 100"
    by simp
  ultimately show ?thesis using float_literal_sudan by (intro conjI)
qed

section \<open>Crisis-period sampling\<close>

lemma upt_shift: "map f [0..<Suc n] = f 0 # map (\<lambda>k. f (Suc k)) [0..<n]"
  by (simp add: upt_conv_Cons map_Suc_upt [symmetric] del: upt_Suc)

lemma crisis_rates_loop_requests:
  "snd (crisis_rates_loop env fiat_cur start_dt end_dt current_dt acc) =
     snd acc @ map (\<lambda>k. current_dt + (if end_dt - start_dt > 90 then 7 else 1) * int k)
       [0..<nat ((end_dt - current_dt) div (if end_dt - start_dt > 90 then 7 else 1) + 1)]"
proof (induction env fiat_cur start_dt end_dt current_dt acc rule: crisis_rates_loop.induct)
  case (1 env fiat_cur start_dt end_dt current_dt rates_data requests)
  define step :: int where "step = (if end_dt - start_dt > 90 then 7 else 1)"
  have step_pos: "0 < step" by (simp add: step_def)
  show ?case
  proof (cases "current_dt \<le> end_dt")
    case False
    then have "(end_dt - current_dt) div step + 1 \<le> 0"
      using step_pos
      by (smt (verit) div_by_1 pos_imp_zdiv_neg_iff step_def zdiv_mono1) 
    then show ?thesis using False
      by (subst crisis_rates_loop.simps) (simp add: step_def [symmetric])
  next
    case True
    have n: "nat ((end_dt - current_dt) div step + 1)
        = Suc (nat ((end_dt - (current_dt + step)) div step + 1))"
    proof -
      have "(end_dt - current_dt) div step = (end_dt - (current_dt + step)) div step + 1"
        using step_pos
        by (smt (verit, ccfv_threshold) div_add_self2) 
      moreover have "0 \<le> (end_dt - current_dt) div step"
        using True step_pos by (simp add: pos_imp_zdiv_nonneg_iff)
      ultimately show ?thesis by linarith
    qed
    note IH = "1.IH" [OF True refl refl refl refl, unfolded step_def [symmetric]]
    show ?thesis
      apply (subst crisis_rates_loop.simps)
      using True n
      apply (simp add: Let_def step_def [symmetric] IH upt_shift del: upt_Suc split: option.split)
      apply (simp add: algebra_simps)
      done
  qed
qed

text \<open>
  Claim C4. When the country is known and both dates parse, the dates for which
  \<open>collect_crisis_period_rates\<close> requests rates are the start date and every seventh day
  after it up to the end date when the end date is more than 90 days after the start date,
  and every day from the start date to the end date otherwise. A range of 200 days makes
  29 requests and a range of 30 days makes 31; a range of exactly 90 days is sampled daily
  (91 requests) and a range of 91 days weekly (14 requests).
\<close>

theorem crisis_sampling_cadence:
  "(get_profile_by_country_code profiles code = Inr prof
      \<and> strptime env start_text = Some start_dt \<and> strptime env end_text = Some end_dt \<longrightarrow>
      snd (collect_crisis_period_rates env profiles code start_text end_text) =
        map (\<lambda>k. start_dt + (if end_dt - start_dt > 90 then 7 else 1) * int k)
          [0..<nat ((end_dt - start_dt) div (if end_dt - start_dt > 90 then 7 else 1) + 1)])
   \<and> length (snd (crisis_rates_loop env fiat_cur d (d + 200) d ([], []))) = 29
   \<and> length (snd (crisis_rates_loop env fiat_cur d (d + 30) d ([], []))) = 31
   \<and> snd (crisis_rates_loop env fiat_cur d (d + 90) d ([], [])) = map (\<lambda>k. d + int k) [0..<91]
   \<and> snd (crisis_rates_loop env fiat_cur d (d + 91) d ([], [])) = map (\<lambda>k. d + 7 * int k) [0..<14]"
proof (intro conjI impI)
  assume "get_profile_by_country_code profiles code = Inr prof
      \<and> strptime env start_text = Some start_dt \<and> strptime env end_text = Some end_dt"
  then show "snd (collect_crisis_period_rates env profiles code start_text end_text) =
        map (\<lambda>k. start_dt + (if end_dt - start_dt > 90 then 7 else 1) * int k)
          [0..<nat ((end_dt - start_dt) div (if end_dt - start_dt > 90 then 7 else 1) + 1)]"
    by (simp only: collect_crisis_period_rates_def crisis_rates_loop_requests sum.case
        option.case snd_conv append_Nil)
next
  have "nat ((d + 200 - d) div (if d + 200 - d > 90 then 7 else 1) + 1) = 29"
    by simp
  then show "length (snd (crisis_rates_loop env fiat_cur d (d + 200) d ([], []))) = 29"
    by (simp only: crisis_rates_loop_requests length_append length_map length_upt snd_conv)
       simp
next
  have "nat ((d + 30 - d) div (if d + 30 - d > 90 then 7 else 1) + 1) = 31"
    by simp
  then show "length (snd (crisis_rates_loop env fiat_cur d (d + 30) d ([], []))) = 31"
    by (simp only: crisis_rates_loop_requests length_append length_map length_upt snd_conv)
       simp
next
  have "nat ((d + 90 - d) div (if d + 90 - d > 90 then 7 else 1) + 1) = 91"
    "(if d + 90 - d > 90 then 7 else 1) = (1::int)"
    by simp_all
  then show "snd (crisis_rates_loop env fiat_cur d (d + 90) d ([], []))
      = map (\<lambda>k. d + int k) [0..<91]"
    by (simp only: crisis_rates_loop_requests snd_conv append_Nil mult_1)
next
  have "nat ((d + 91 - d) div (if d + 91 - d > 90 then 7 else 1) + 1) = 14"
    "(if d + 91 - d > 90 then 7 else 1) = (7::int)"
    by simp_all
  then show "snd (crisis_rates_loop env fiat_cur d (d + 91) d ([], []))
      = map (\<lambda>k. d + 7 * int k) [0..<14]"
    by (simp only: crisis_rates_loop_requests snd_conv append_Nil)
qed

text \<open>The Sudan crisis period of 200 days, from 2021-10-01 to 2022-04-19.\<close>

theorem crisis_sampling_cadence_witness:
  "length (snd (collect_crisis_period_rates example_rate_env [sudan, venezuela] ''sd''
      ''2021-10-01'' ''2022-04-19'')) = 29
   \<and> hd (snd (collect_crisis_period_rates example_rate_env [sudan, venezuela] ''sd''
      ''2021-10-01'' ''2022-04-19'')) = 18901"
proof -
  have p: "get_profile_by_country_code [sudan, venezuela] ''sd'' = Inr sudan"
    by code_simp
  have s: "strptime example_rate_env ''2021-10-01'' = Some 18901"
    "strptime example_rate_env ''2022-04-19'' = Some 19101"
    by (simp_all add: example_rate_env_def)
  have "snd (collect_crisis_period_rates example_rate_env [sudan, venezuela] ''sd''
      ''2021-10-01'' ''2022-04-19'') =
        map (\<lambda>k. 18901 + (if 19101 - 18901 > (90::int) then 7 else 1) * int k)
          [0..<nat ((19101 - 18901) div (if 19101 - 18901 > (90::int) then 7 else 1) + 1)]"
    using crisis_sampling_cadence [of "[sudan, venezuela]" "''sd''" sudan example_rate_env
        "''2021-10-01''" 18901 "''2022-04-19''" 19101] p s
    by blast
  also have "\<dots> = map (\<lambda>k. 18901 + 7 * int k) [0..<29]"
    by simp
  finally show ?thesis
    by (simp add: hd_map upt_conv_Cons del: upt_Suc)
qed

section \<open>Country lookup\<close>

lemma dropWhile_all: "\<forall>x\<in>set xs. P x \<Longrightarrow> dropWhile P xs = []"
  by (induction xs) auto
lemma py_strip_padding: 
  assumes "\<forall>c\<in>set l. py_isspace c" "\<forall>c\<in>set r. py_isspace c"
  shows "py_strip (l @ s @ r) = py_strip s"
proof (cases "\<forall>c\<in>set s. py_isspace c")
  case True
  then have "\<forall>c\<in>set (l @ s @ r). py_isspace c"
    using assms by auto
  then have "dropWhile py_isspace (l @ s @ r) = []"
    by (rule dropWhile_all)
  moreover have "dropWhile py_isspace s = []"
    using True by (rule dropWhile_all)
  ultimately show ?thesis by (simp only: py_strip_def)
next
  case False
  have "dropWhile py_isspace (l @ s @ r) = dropWhile py_isspace (s @ r)"
    using assms(1) by (simp add: dropWhile_append2)
  also have "\<dots> = dropWhile py_isspace s @ r"
    using False by (auto simp: dropWhile_append1)
  finally have "rev (dropWhile py_isspace (l @ s @ r)) = rev r @ rev (dropWhile py_isspace s)"
    by simp
  moreover have "dropWhile py_isspace (rev r @ rev (dropWhile py_isspace s))
      = dropWhile py_isspace (rev (dropWhile py_isspace s))"
    by (rule dropWhile_append2) (use assms(2) in auto)
  ultimately show ?thesis by (simp only: py_strip_def)
qed
lemma upper_lower_char: "upper_char (lower_char c) = upper_char c"
  unfolding upper_char_def lower_char_def Let_def
  by auto
lemma lower_upper_char: "lower_char (upper_char c) = lower_char c"
  unfolding upper_char_def lower_char_def Let_def
  by auto
lemma isspace_upper: "py_isspace (upper_char c) = py_isspace c"
  unfolding upper_char_def py_isspace_def Let_def
  by auto
lemma isspace_lower: "py_isspace (lower_char c) = py_isspace c"
  unfolding lower_char_def py_isspace_def Let_def
  by auto
lemma dropWhile_map_pres: "(\<And>c. P (f c) = P c) \<Longrightarrow> dropWhile P (map f s) = map f (dropWhile P s)"
  by (induction s) auto
lemma strip_upper: "py_strip (py_upper s) = py_upper (py_strip s)"
  by (simp add: py_strip_def py_upper_def dropWhile_map_pres isspace_upper rev_map)
lemma strip_lower: "py_strip (py_lower s) = py_lower (py_strip s)"
  by (simp add: py_strip_def py_lower_def dropWhile_map_pres isspace_lower rev_map)
lemma upper_lower: "py_upper (py_lower s) = py_upper s"
  by (simp add: py_upper_def py_lower_def upper_lower_char)
lemma lower_upper: "py_lower (py_upper s) = py_lower s"
  by (simp add: py_upper_def py_lower_def lower_upper_char)
lemma code_search_find: "code_search c ps = find (\<lambda>p. py_upper (profile.country_code p) = c) ps"
  by (induction ps) auto
lemma name_search_find: "name_search c ps = find (\<lambda>p. py_lower (profile.name p) = c) ps"
  by (induction ps) auto

lemma search_key_upper:
  assumes "\<forall>c\<in>set l. py_isspace c" "\<forall>c\<in>set r. py_isspace c" "py_lower s = py_lower s'"
  shows "py_upper (py_strip (l @ s @ r)) = py_upper (py_strip s')"
proof -
  have "py_upper (py_strip s) = py_upper (py_strip (py_lower s))"
    by (simp add: strip_lower upper_lower)
  also have "\<dots> = py_upper (py_strip s')"
    by (simp add: assms(3) strip_lower upper_lower)
  finally show ?thesis
    using assms(1,2) by (simp add: py_strip_padding)
qed

lemma search_key_lower:
  assumes "\<forall>c\<in>set l. py_isspace c" "\<forall>c\<in>set r. py_isspace c" "py_lower s = py_lower s'"
  shows "py_lower (py_strip (l @ s @ r)) = py_lower (py_strip s')"
proof -
  have "py_lower (py_strip s) = py_strip (py_lower s)"
    by (simp add: strip_lower)
  also have "\<dots> = py_lower (py_strip s')"
    by (simp add: assms(3) strip_lower)
  finally show ?thesis
    using assms(1,2) by (simp add: py_strip_padding)
qed

lemma found_code:
  "found (get_profile_by_country_code profiles s) =
     find (\<lambda>p. py_upper (profile.country_code p) = py_upper (py_strip s)) profiles"
  by (simp add: get_profile_by_country_code_def found_def code_search_find split: option.split)

lemma found_name:
  "found (get_profile_by_country_name profiles s) =
     find (\<lambda>p. py_lower (profile.name p) = py_lower (py_strip s)) profiles"
  by (simp add: get_profile_by_country_name_def found_def name_search_find split: option.split)

text \<open>
  Claim C8. The lookups by code and by name return the first profile of the table whose
  code (name) equals the query after the query's surrounding whitespace is removed and
  case is ignored: padding the query with whitespace or changing the case of its letters
  does not change the profile found; a profile returned is a member of the table and
  matches the query; a profile is returned whenever one matches; and when none matches
  the lookup raises \<open>ValueError\<close> with the query in its message. In particular the
  queries \<open>sd\<close>, \<open>SD\<close> and \<open>Sd\<close> between spaces find the same profile in every table.
\<close>

theorem country_lookup_trimmed_caseless:
  "(\<forall>l r s s'. (\<forall>c\<in>set l. py_isspace c) \<and> (\<forall>c\<in>set r. py_isspace c) \<and> py_lower s = py_lower s' \<longrightarrow>
       found (get_profile_by_country_code profiles (l @ s @ r)) =
         found (get_profile_by_country_code profiles s')
     \<and> found (get_profile_by_country_name profiles (l @ s @ r)) =
         found (get_profile_by_country_name profiles s'))
   \<and> (\<forall>s p. get_profile_by_country_code profiles s = Inr p \<longrightarrow>
         p \<in> set profiles \<and> py_upper (profile.country_code p) = py_upper (py_strip s))
   \<and> (\<forall>s p. get_profile_by_country_name profiles s = Inr p \<longrightarrow>
         p \<in> set profiles \<and> py_lower (profile.name p) = py_lower (py_strip s))
   \<and> (\<forall>s. (\<exists>p\<in>set profiles. py_upper (profile.country_code p) = py_upper (py_strip s)) \<longrightarrow>
         (\<exists>p. get_profile_by_country_code profiles s = Inr p))
   \<and> (\<forall>s. (\<exists>p\<in>set profiles. py_lower (profile.name p) = py_lower (py_strip s)) \<longrightarrow>
         (\<exists>p. get_profile_by_country_name profiles s = Inr p))
   \<and> (\<forall>s. (\<forall>p\<in>set profiles. py_upper (profile.country_code p) \<noteq> py_upper (py_strip s)) \<longrightarrow>
         get_profile_by_country_code profiles s =
           Inl (ValueError (''No profile found for country code: '' @ s)))
   \<and> (\<forall>s. (\<forall>p\<in>set profiles. py_lower (profile.name p) \<noteq> py_lower (py_strip s)) \<longrightarrow>
         get_profile_by_country_name profiles s =
           Inl (ValueError (''No profile found for country name: '' @ s)))
   \<and> found (get_profile_by_country_code profiles ''sd'') =
       found (get_profile_by_country_code profiles ''SD'')
   \<and> found (get_profile_by_country_code profiles ''SD'') =
       found (get_profile_by_country_code profiles '' Sd '')"
proof (intro conjI allI impI)
  fix l r s s'
  assume a: "(\<forall>c\<in>set l. py_isspace c) \<and> (\<forall>c\<in>set r. py_isspace c) \<and> py_lower s = py_lower s'"
  show "found (get_profile_by_country_code profiles (l @ s @ r)) =
         found (get_profile_by_country_code profiles s')"
    using search_key_upper [of l r s s'] a by (simp add: found_code)
  show "found (get_profile_by_country_name profiles (l @ s @ r)) =
         found (get_profile_by_country_name profiles s')"
    using search_key_lower [of l r s s'] a by (simp add: found_name)
next
  fix s p
  assume "get_profile_by_country_code profiles s = Inr p"
  then have "find (\<lambda>p. py_upper (profile.country_code p) = py_upper (py_strip s)) profiles = Some p"
    using found_code [of profiles s] by (simp add: found_def)
  then show "p \<in> set profiles" "py_upper (profile.country_code p) = py_upper (py_strip s)"
    by (auto simp: find_Some_iff)
next
  fix s p
  assume "get_profile_by_country_name profiles s = Inr p"
  then have "find (\<lambda>p. py_lower (profile.name p) = py_lower (py_strip s)) profiles = Some p"
    using found_name [of profiles s] by (simp add: found_def)
  then show "p \<in> set profiles" "py_lower (profile.name p) = py_lower (py_strip s)"
    by (auto simp: find_Some_iff)
next
  fix s
  assume "\<exists>p\<in>set profiles. py_upper (profile.country_code p) = py_upper (py_strip s)"
  then have "find (\<lambda>p. py_upper (profile.country_code p) = py_upper (py_strip s)) profiles \<noteq> None"
    by (auto simp: find_None_iff)
  then show "\<exists>p. get_profile_by_country_code profiles s = Inr p"
    by (auto simp: get_profile_by_country_code_def code_search_find)
next
  fix s
  assume "\<exists>p\<in>set profiles. py_lower (profile.name p) = py_lower (py_strip s)"
  then have "find (\<lambda>p. py_lower (profile.name p) = py_lower (py_strip s)) profiles \<noteq> None"
    by (auto simp: find_None_iff)
  then show "\<exists>p. get_profile_by_country_name profiles s = Inr p"
    by (auto simp: get_profile_by_country_name_def name_search_find)
next
  fix s
  assume "\<forall>p\<in>set profiles. py_upper (profile.country_code p) \<noteq> py_upper (py_strip s)"
  then have "find (\<lambda>p. py_upper (profile.country_code p) = py_upper (py_strip s)) profiles = None"
    by (simp add: find_None_iff)
  then show "get_profile_by_country_code profiles s =
           Inl (ValueError (''No profile found for country code: '' @ s))"
    by (simp add: get_profile_by_country_code_def code_search_find)
next
  fix s
  assume "\<forall>p\<in>set profiles. py_lower (profile.name p) \<noteq> py_lower (py_strip s)"
  then have "find (\<lambda>p. py_lower (profile.name p) = py_lower (py_strip s)) profiles = None"
    by (simp add: find_None_iff)
  then show "get_profile_by_country_name profiles s =
           Inl (ValueError (''No profile found for country name: '' @ s))"
    by (simp add: get_profile_by_country_name_def name_search_find)
next
  have k: "py_upper (py_strip ''sd'') = ''SD''" "py_upper (py_strip ''SD'') = ''SD''"
    "py_upper (py_strip '' Sd '') = ''SD''"
    by code_simp+
  show "found (get_profile_by_country_code profiles ''sd'') =
       found (get_profile_by_country_code profiles ''SD'')"
    by (simp only: found_code k)
  show "found (get_profile_by_country_code profiles ''SD'') =
       found (get_profile_by_country_code profiles '' Sd '')"
    by (simp only: found_code k)
qed

text \<open>The lookups on a table of two profiles.\<close>

theorem country_lookup_trimmed_caseless_witness:
  "get_profile_by_country_code [sudan, venezuela] '' ve '' = Inr venezuela
   \<and> get_profile_by_country_name [sudan, venezuela] ''  SUDAN'' = Inr sudan
   \<and> get_profile_by_country_code [sudan, venezuela] ''XX'' =
       Inl (ValueError ''No profile found for country code: XX'')
   \<and> get_profile_by_country_name [sudan, venezuela] ''InvalidCountry'' =
       Inl (ValueError ''No profile found for country name: InvalidCountry'')
   \<and> found (get_profile_by_country_code [sudan, venezuela] ('' '' @ ''Sd'' @ '' '')) = Some sudan
   \<and> found (get_profile_by_country_name [sudan, venezuela] ('' '' @ ''veneZuela'' @ '' '')) = Some venezuela
   \<and> \<not> isl (get_profile_by_country_code [sudan, venezuela] ''sd'')
   \<and> \<not> isl (get_profile_by_country_name [sudan, venezuela] ''sudan '')"
proof -
  note T = country_lookup_trimmed_caseless [of "[sudan, venezuela]"]
  have x1: "\<exists>p\<in>set [sudan, venezuela].
      py_upper (profile.country_code p) = py_upper (py_strip ''sd'')"
    by code_simp
  have x2: "\<exists>p\<in>set [sudan, venezuela]. py_lower (profile.name p) = py_lower (py_strip ''sudan '')"
    by code_simp
  have y1: "\<exists>p. get_profile_by_country_code [sudan, venezuela] ''sd'' = Inr p"
    using T x1 by blast
  have y2: "\<exists>p. get_profile_by_country_name [sudan, venezuela] ''sudan '' = Inr p"
    using T x2 by blast
  have z: "\<not> isl (get_profile_by_country_code [sudan, venezuela] ''sd'')"
    "\<not> isl (get_profile_by_country_name [sudan, venezuela] ''sudan '')"
    using y1 y2 by auto
  have ws: "\<forall>c\<in>set '' ''. py_isspace c"
    by (simp add: py_isspace_def)
  have e1: "get_profile_by_country_code [sudan, venezuela] '' ve '' = Inr venezuela"
    by code_simp
  have e2: "get_profile_by_country_name [sudan, venezuela] ''  SUDAN'' = Inr sudan"
    by code_simp
  have m1: "venezuela \<in> set [sudan, venezuela]
      \<and> py_upper (profile.country_code venezuela) = py_upper (py_strip '' ve '')"
    using T e1 by blast
  have m2: "sudan \<in> set [sudan, venezuela]
      \<and> py_lower (profile.name sudan) = py_lower (py_strip ''  SUDAN'')"
    using T e2 by blast
  have n1: "\<forall>p\<in>set [sudan, venezuela]. py_upper (profile.country_code p) \<noteq> py_upper (py_strip ''XX'')"
    by code_simp
  have n2: "\<forall>p\<in>set [sudan, venezuela]. py_lower (profile.name p) \<noteq> py_lower (py_strip ''InvalidCountry'')"
    by code_simp
  have r1: "get_profile_by_country_code [sudan, venezuela] ''XX'' =
       Inl (ValueError (''No profile found for country code: '' @ ''XX''))"
    using T n1 by blast
  have r2: "get_profile_by_country_name [sudan, venezuela] ''InvalidCountry'' =
       Inl (ValueError (''No profile found for country name: '' @ ''InvalidCountry''))"
    using T n2 by blast
  have l1: "py_lower ''Sd'' = py_lower ''SD''" "py_lower ''veneZuela'' = py_lower ''Venezuela''"
    by code_simp+
  have c1: "found (get_profile_by_country_code [sudan, venezuela] ('' '' @ ''Sd'' @ '' '')) =
      found (get_profile_by_country_code [sudan, venezuela] ''SD'')"
    using T ws l1(1) by blast
  have c2: "found (get_profile_by_country_name [sudan, venezuela] ('' '' @ ''veneZuela'' @ '' '')) =
      found (get_profile_by_country_name [sudan, venezuela] ''Venezuela'')"
    using T ws l1(2) by blast
  have f1: "found (get_profile_by_country_code [sudan, venezuela] ''SD'') = Some sudan"
    "found (get_profile_by_country_name [sudan, venezuela] ''Venezuela'') = Some venezuela"
    by code_simp+
  show ?thesis
    using e1 e2 r1 r2 c1 c2 f1 m1 m2 z by simp
qed

section \<open>Standardization and collection runs\<close>

lemma and_then_Inr_iff: "and_then m f = Inr y \<longleftrightarrow> (\<exists>x. m = Inr x \<and> f x = Inr y)"
  by (cases m) (simp_all add: and_then_def)

lemma and_then_InrE:
  assumes "and_then m f = Inr y"
  obtains x where "m = Inr x" "f x = Inr y"
  using assms by (auto simp: and_then_Inr_iff)

lemma binance_standardize_ad_fields:
  assumes "binance_standardize_ad B now ad_data code side = Inr a"
  shows "ad.trade_type a = side \<and> ad.premium_pct a = None \<and> ad.collection_id a = None
     \<and> ad.platform a = ''binance'' \<and> ad.country_code a = code
     \<and> (\<exists>xs. ad.payment_methods a = PList xs)"
  using assms unfolding binance_standardize_ad_def
  by (elim and_then_InrE) auto

lemma okx_standardize_ad_fields:
  assumes "okx_standardize_ad B now ad_data code side = Inr a"
  shows "ad.trade_type a = (if py_lower side = ''buy'' then ''BUY'' else ''SELL'')
     \<and> ad.premium_pct a = None \<and> ad.collection_id a = None
     \<and> ad.platform a = ''okx'' \<and> ad.country_code a = code"
  using assms unfolding okx_standardize_ad_def Let_def
  by (elim and_then_InrE) auto

lemma extends_refl: "extends P buy st st"
  by (simp add: extends_def)

lemma extends_trans:
  assumes "extends P buy st st1" "extends P buy st1 st2"
  shows "extends P buy st st2"
proof -
  from assms(1) obtain n1 where
    n1: "all_ads st1 = all_ads st @ n1" "\<forall>a\<in>set n1. P a"
      "buy_count st1 = buy_count st + (if buy then length n1 else 0)"
      "sell_count st1 = sell_count st + (if buy then 0 else length n1)"
    unfolding extends_def by blast
  from assms(2) obtain n2 where
    n2: "all_ads st2 = all_ads st1 @ n2" "\<forall>a\<in>set n2. P a"
      "buy_count st2 = buy_count st1 + (if buy then length n2 else 0)"
      "sell_count st2 = sell_count st1 + (if buy then 0 else length n2)"
    unfolding extends_def by blast
  have "all_ads st2 = all_ads st @ (n1 @ n2)" "\<forall>a\<in>set (n1 @ n2). P a"
    "buy_count st2 = buy_count st + (if buy then length (n1 @ n2) else 0)"
    "sell_count st2 = sell_count st + (if buy then 0 else length (n1 @ n2))"
    using n1 n2 by auto
  then show ?thesis unfolding extends_def by blast
qed

lemma binance_ads_loop_extends:
  "binance_ads_loop B now code side items st = Inr st' \<Longrightarrow>
     extends (\<lambda>a. ad.trade_type a = side \<and> ad.premium_pct a = None) (side = ''BUY'') st st'"
proof (induction items arbitrary: st)
  case Nil
  then show ?case by (simp add: extends_refl)
next
  case (Cons x items)
  let ?st1 = "\<lambda>a. (if side = ''BUY''
          then st\<lparr>all_ads := all_ads st @ [a], buy_count := buy_count st + 1\<rparr>
          else st\<lparr>all_ads := all_ads st @ [a], sell_count := sell_count st + 1\<rparr>)"
  from Cons.prems obtain a where
    a: "binance_standardize_ad B now x code side = Inr a"
    and r: "binance_ads_loop B now code side items (?st1 a) = Inr st'"
    by (simp only: binance_ads_loop.simps) (erule and_then_InrE)
  have "extends (\<lambda>a. ad.trade_type a = side \<and> ad.premium_pct a = None) (side = ''BUY'') st (?st1 a)"
    using binance_standardize_ad_fields [OF a] by (simp add: extends_def)
  then show ?case
    using Cons.IH [OF r] extends_trans by blast
qed

lemma binance_page_loop_extends:
  "binance_page_loop B now fetch code side page st = Inr st' \<Longrightarrow>
     extends (\<lambda>a. ad.trade_type a = side \<and> ad.premium_pct a = None) (side = ''BUY'') st st'"
proof (induction B now fetch code side page st rule: binance_page_loop.induct)
  case (1 B now fetch code side page st)
  let ?E = "extends (\<lambda>a. ad.trade_type a = side \<and> ad.premium_pct a = None) (side = ''BUY'')"
  note simps = binance_page_loop.simps [of B now fetch code side page st]
  show ?case
  proof (cases "page \<le> 5 \<and> py_truthy (fetch side page)")
    case False
    then have "st' = st" using "1.prems" simps by (auto simp: Let_def split: if_splits)
    then show ?thesis by (simp add: extends_refl)
  next
    case True
    then have p: "page \<le> 5" and t: "py_truthy (fetch side page)" by simp_all
    from "1.prems" p t obtain d where d: "py_get (fetch side page) ''data'' PNone = Inr d"
      and r1: "(if \<not> py_truthy d then Inr st
           else and_then (py_item (fetch side page) ''data'') (\<lambda>ads.
             if \<not> py_truthy ads then Inr st
             else and_then (py_iter ads) (\<lambda>items.
               and_then (binance_ads_loop B now code side items st) (\<lambda>st'.
                 binance_page_loop B now fetch code side (page + 1) st')))) = Inr st'"
      by (simp only: simps Let_def if_True if_False not_True_eq_False) (erule and_then_InrE)
    show ?thesis
    proof (cases "py_truthy d")
      case False
      then show ?thesis using r1 by (simp add: extends_refl)
    next
      case td: True
      from r1 td obtain ads where ads: "py_item (fetch side page) ''data'' = Inr ads"
        and r2: "(if \<not> py_truthy ads then Inr st
             else and_then (py_iter ads) (\<lambda>items.
               and_then (binance_ads_loop B now code side items st) (\<lambda>st'.
                 binance_page_loop B now fetch code side (page + 1) st'))) = Inr st'"
        by (simp only: if_False not_True_eq_False) (erule and_then_InrE)
      show ?thesis
      proof (cases "py_truthy ads")
        case False
        then show ?thesis using r2 by (simp add: extends_refl)
      next
        case ta: True
        from r2 ta obtain items st1 where items: "py_iter ads = Inr items"
          and l: "binance_ads_loop B now code side items st = Inr st1"
          and r3: "binance_page_loop B now fetch code side (page + 1) st1 = Inr st'"
          by (simp only: if_False not_True_eq_False) (elim and_then_InrE)
        have "?E st1 st'"
          using "1.IH" [OF p refl _ d _ ads _ items l r3] t td ta by simp
        then show ?thesis
          using binance_ads_loop_extends [OF l] extends_trans by blast
      qed
    qed
  qed
qed

lemma okx_ads_loop_extends:
  "okx_ads_loop B now code side items st = Inr st' \<Longrightarrow>
     extends (\<lambda>a. ad.trade_type a = (if py_lower side = ''buy'' then ''BUY'' else ''SELL'')
                \<and> ad.premium_pct a = None) (side = ''buy'') st st'"
proof (induction items arbitrary: st)
  case Nil
  then show ?case by (simp add: extends_refl)
next
  case (Cons x items)
  let ?st1 = "\<lambda>a. (if side = ''buy''
          then st\<lparr>all_ads := all_ads st @ [a], buy_count := buy_count st + 1\<rparr>
          else st\<lparr>all_ads := all_ads st @ [a], sell_count := sell_count st + 1\<rparr>)"
  let ?E = "extends (\<lambda>a. ad.trade_type a = (if py_lower side = ''buy'' then ''BUY'' else ''SELL'')
                \<and> ad.premium_pct a = None) (side = ''buy'')"
  from Cons.prems obtain a where
    a: "okx_standardize_ad B now x code side = Inr a"
    and r: "okx_ads_loop B now code side items (?st1 a) = Inr st'"
    by (simp only: okx_ads_loop.simps) (erule and_then_InrE)
  have "?E st (?st1 a)"
    using okx_standardize_ad_fields [OF a] by (simp add: extends_def)
  then show ?case
    using Cons.IH [OF r] extends_trans by blast
qed

lemma okx_page_loop_extends:
  "okx_page_loop B now fetch code side page st = Inr st' \<Longrightarrow>
     extends (\<lambda>a. ad.trade_type a = (if py_lower side = ''buy'' then ''BUY'' else ''SELL'')
                \<and> ad.premium_pct a = None) (side = ''buy'') st st'"
proof (induction B now fetch code side page st rule: okx_page_loop.induct)
  case (1 B now fetch code side page st)
  let ?E = "extends (\<lambda>a. ad.trade_type a = (if py_lower side = ''buy'' then ''BUY'' else ''SELL'')
                \<and> ad.premium_pct a = None) (side = ''buy'')"
  note simps = okx_page_loop.simps [of B now fetch code side page st]
  show ?case
  proof (cases "page \<le> 3 \<and> py_truthy (fetch side page)")
    case False
    then have "st' = st" using "1.prems" simps by (auto simp: Let_def split: if_splits)
    then show ?thesis by (simp add: extends_refl)
  next
    case True
    then have p: "page \<le> 3" and t: "py_truthy (fetch side page)" by simp_all
    from "1.prems" p t obtain d where d: "py_get (fetch side page) ''data'' PNone = Inr d"
      and r1: "(if \<not> py_truthy d then Inr st
           else and_then (py_get (fetch side page) ''data'' (PDict [])) (\<lambda>d'.
             and_then (py_get d' ''orders'' (PList [])) (\<lambda>ads.
               if \<not> py_truthy ads then Inr st
               else and_then (py_iter ads) (\<lambda>items.
                 and_then (okx_ads_loop B now code side items st) (\<lambda>st'.
                   okx_page_loop B now fetch code side (page + 1) st'))))) = Inr st'"
      by (simp only: simps Let_def if_True if_False not_True_eq_False) (erule and_then_InrE)
    show ?thesis
    proof (cases "py_truthy d")
      case False
      then show ?thesis using r1 by (simp add: extends_refl)
    next
      case td: True
      from r1 td obtain d' ads where d': "py_get (fetch side page) ''data'' (PDict []) = Inr d'"
        and ads: "py_get d' ''orders'' (PList []) = Inr ads"
        and r2: "(if \<not> py_truthy ads then Inr st
             else and_then (py_iter ads) (\<lambda>items.
               and_then (okx_ads_loop B now code side items st) (\<lambda>st'.
                 okx_page_loop B now fetch code side (page + 1) st'))) = Inr st'"
        by (simp only: if_False not_True_eq_False) (elim and_then_InrE)
      show ?thesis
      proof (cases "py_truthy ads")
        case False
        then show ?thesis using r2 by (simp add: extends_refl)
      next
        case ta: True
        from r2 ta obtain items st1 where items: "py_iter ads = Inr items"
          and l: "okx_ads_loop B now code side items st = Inr st1"
          and r3: "okx_page_loop B now fetch code side (page + 1) st1 = Inr st'"
          by (simp only: if_False not_True_eq_False) (elim and_then_InrE)
        have "?E st1 st'"
          using "1.IH" [OF p refl _ d _ d' ads _ items l r3] t td ta by simp
        then show ?thesis
          using okx_ads_loop_extends [OF l] extends_trans by blast
      qed
    qed
  qed
qed

lemma extends_two_sided:
  assumes "extends (\<lambda>a. ad.trade_type a = ''BUY'' \<and> ad.premium_pct a = None) True
             \<lparr>all_ads = [], buy_count = 0, sell_count = 0\<rparr> st1"
    and "extends (\<lambda>a. ad.trade_type a = ''SELL'' \<and> ad.premium_pct a = None) False st1 st2"
  shows "two_sided st2"
proof -
  from assms(1) obtain n1 where
    n1: "all_ads st1 = n1" "\<forall>a\<in>set n1. ad.trade_type a = ''BUY'' \<and> ad.premium_pct a = None"
      "buy_count st1 = length n1" "sell_count st1 = 0"
    unfolding extends_def by auto
  from assms(2) obtain n2 where
    n2: "all_ads st2 = all_ads st1 @ n2" "\<forall>a\<in>set n2. ad.trade_type a = ''SELL'' \<and> ad.premium_pct a = None"
      "buy_count st2 = buy_count st1" "sell_count st2 = sell_count st1 + length n2"
    unfolding extends_def by auto
  show ?thesis
    unfolding two_sided_def using n1 n2 by (intro exI [of _ n1] exI [of _ n2]) simp
qed

lemma binance_side_loop_two_sided:
  assumes "binance_side_loop B now fetch code [''BUY'', ''SELL'']
             \<lparr>all_ads = [], buy_count = 0, sell_count = 0\<rparr> = Inr st"
  shows "two_sided st"
proof -
  from assms have "and_then
      (binance_page_loop B now fetch code ''BUY'' 1 \<lparr>all_ads = [], buy_count = 0, sell_count = 0\<rparr>)
      (binance_side_loop B now fetch code [''SELL'']) = Inr st"
    by (simp only: binance_side_loop.simps(2))
  then obtain st1 where
    a: "binance_page_loop B now fetch code ''BUY'' 1 \<lparr>all_ads = [], buy_count = 0, sell_count = 0\<rparr> = Inr st1"
    and r: "binance_side_loop B now fetch code [''SELL''] st1 = Inr st"
    by (rule and_then_InrE)
  from r have b: "binance_page_loop B now fetch code ''SELL'' 1 st1 = Inr st"
    by (simp add: and_then_Inr_iff)
  show ?thesis
    using binance_page_loop_extends [OF a] binance_page_loop_extends [OF b]
    by (intro extends_two_sided [of st1]) simp_all
qed

lemma okx_side_loop_two_sided:
  assumes "okx_side_loop B now fetch code [''buy'', ''sell'']
             \<lparr>all_ads = [], buy_count = 0, sell_count = 0\<rparr> = Inr st"
  shows "two_sided st"
proof -
  from assms have "and_then
      (okx_page_loop B now fetch code ''buy'' 1 \<lparr>all_ads = [], buy_count = 0, sell_count = 0\<rparr>)
      (okx_side_loop B now fetch code [''sell'']) = Inr st"
    by (simp only: okx_side_loop.simps(2))
  then obtain st1 where
    a: "okx_page_loop B now fetch code ''buy'' 1 \<lparr>all_ads = [], buy_count = 0, sell_count = 0\<rparr> = Inr st1"
    and r: "okx_side_loop B now fetch code [''sell''] st1 = Inr st"
    by (rule and_then_InrE)
  from r have b: "okx_page_loop B now fetch code ''sell'' 1 st1 = Inr st"
    by (simp add: and_then_Inr_iff)
  have l: "py_lower ''buy'' = ''buy''" "py_lower ''sell'' \<noteq> ''buy''"
    by code_simp+
  show ?thesis
    using okx_page_loop_extends [OF a] okx_page_loop_extends [OF b] l
    by (intro extends_two_sided [of st1]) simp_all
qed

lemma mark_ad_fields:
  "ad.trade_type (mark_ad B cid a) = ad.trade_type a"
  "ad.premium_pct (mark_ad B cid a) = ad.premium_pct a"
  "ad.collection_id (mark_ad B cid a) = Some cid"
  by (simp_all add: mark_ad_def Let_def split: pyval.split)

lemma two_sided_outcome:
  assumes "two_sided st"
  shows "run_outcome pn False store (all_ads st) store"
    and "all_ads st \<noteq> [] \<Longrightarrow> run_outcome pn True store
       (fst (snd (save_raw_ads B store (all_ads st) pn code c)))
       (log_collection_run (snd (snd (save_raw_ads B store (all_ads st) pn code c))) pn code cname fc
          (length (fst (snd (save_raw_ads B store (all_ads st) pn code c)))) (buy_count st) (sell_count st) stat err c')"
    and "all_ads st = [] \<Longrightarrow> run_outcome pn True store (all_ads st) store"
proof -
  from assms obtain buys sells where
    h: "all_ads st = buys @ sells"
       "\<forall>a\<in>set buys. ad.trade_type a = ''BUY'' \<and> ad.premium_pct a = None"
       "\<forall>a\<in>set sells. ad.trade_type a = ''SELL'' \<and> ad.premium_pct a = None"
       "buy_count st = length buys" "sell_count st = length sells"
    unfolding two_sided_def by blast
  show "run_outcome pn False store (all_ads st) store"
    using h by (auto simp: run_outcome_def)
  show "run_outcome pn True store (all_ads st) store" if "all_ads st = []"
    using that by (simp add: run_outcome_def)
  have fb: "filter (\<lambda>a. ad.trade_type a = ''BUY'') (map (mark_ad B cid) (buys @ sells)) = map (mark_ad B cid) buys" for cid
    using h(2,3) by (auto simp: filter_map o_def mark_ad_fields filter_empty_conv)
  have fs: "filter (\<lambda>a. ad.trade_type a = ''SELL'') (map (mark_ad B cid) (buys @ sells)) = map (mark_ad B cid) sells" for cid
    using h(2,3) by (auto simp: filter_map o_def mark_ad_fields filter_empty_conv)
  show "run_outcome pn True store
       (fst (snd (save_raw_ads B store (all_ads st) pn code c)))
       (log_collection_run (snd (snd (save_raw_ads B store (all_ads st) pn code c))) pn code cname fc
          (length (fst (snd (save_raw_ads B store (all_ads st) pn code c)))) (buy_count st) (sell_count st) stat err c')"
    if "all_ads st \<noteq> []"
    unfolding run_outcome_def save_raw_ads_def log_collection_run_def Let_def
    using that h fb fs by (auto simp: mark_ad_fields)
qed

lemma collect_outcome_aux:
  assumes "(case r of
              Inl e \<Rightarrow> if is_ValueError e then Inr ([], store) else Inl e
            | Inr st \<Rightarrow>
                if save_to_csv \<and> all_ads st \<noteq> [] then
                  (case save_raw_ads B store (all_ads st) pn code (Some cid) of
                     (path, saved, store1) \<Rightarrow>
                       Inr (saved,
                            log_collection_run store1 pn code cname
                              fiat_cur (length saved) (buy_count st) (sell_count st)
                              ''success'' [] (Some cid)))
                else Inr (all_ads st, store)) = Inr (ads, store')"
    and "\<And>st. r = Inr st \<Longrightarrow> two_sided st"
  shows "run_outcome pn save_to_csv store ads store'"
proof (cases r)
  case (Inl e)
  then have "ads = []" "store' = store"
    using assms(1) by (auto split: if_splits)
  then show ?thesis by (simp add: run_outcome_def)
next
  case (Inr st)
  then have ts: "two_sided st" by (rule assms(2))
  show ?thesis
  proof (cases "save_to_csv \<and> all_ads st \<noteq> []")
    case True
    then have "ads = fst (snd (save_raw_ads B store (all_ads st) pn code (Some cid)))"
      "store' = log_collection_run (snd (snd (save_raw_ads B store (all_ads st) pn code (Some cid))))
         pn code cname fiat_cur
         (length (fst (snd (save_raw_ads B store (all_ads st) pn code (Some cid)))))
         (buy_count st) (sell_count st) ''success'' [] (Some cid)"
      using assms(1) Inr by (auto split: prod.splits)
    then show ?thesis
      using two_sided_outcome(2) [OF ts, of pn store B code "Some cid" cname fiat_cur "''success''" "[]" "Some cid"] True
      by simp
  next
    case False
    then have e: "ads = all_ads st" "store' = store"
      using assms(1) Inr by auto
    show ?thesis
    proof (cases save_to_csv)
      case True
      then show ?thesis using False e two_sided_outcome(3) [OF ts] by simp
    next
      case f: False
      then show ?thesis using e two_sided_outcome(1) [OF ts] by simp
    qed
  qed
qed

lemma binance_collect_outcome:
  assumes "binance_collect_country_data B now profiles get_ads store code asset_name save_to_csv
             = Inr (ads, store')"
  shows "run_outcome ''binance'' save_to_csv store ads store'"
proof (cases "get_profile_by_country_code profiles code")
  case (Inl e)
  then have "ads = []" "store' = store"
    using assms by (simp_all add: binance_collect_country_data_def)
  then show ?thesis by (simp add: run_outcome_def)
next
  case (Inr prof)
  show ?thesis
    using assms unfolding binance_collect_country_data_def Inr sum.case Let_def
    by (rule collect_outcome_aux) (rule binance_side_loop_two_sided)
qed

lemma okx_collect_outcome:
  assumes "okx_collect_country_data B now profiles get_ads store code asset_name save_to_csv
             = Inr (ads, store')"
  shows "run_outcome ''okx'' save_to_csv store ads store'"
proof (cases "get_profile_by_country_code profiles code")
  case (Inl e)
  then have "ads = []" "store' = store"
    using assms by (simp_all add: okx_collect_country_data_def)
  then show ?thesis by (simp add: run_outcome_def)
next
  case (Inr prof)
  show ?thesis
    using assms unfolding okx_collect_country_data_def Inr sum.case Let_def
    apply (rule collect_outcome_aux)
    apply (rule okx_side_loop_two_sided)
    apply assumption
    done
qed

lemma example_run_returns: "example_run = Inr (fst (projr example_run), snd (projr example_run))"
proof -
  have "\<not> isl example_run" by code_simp
  then show ?thesis by (cases example_run) simp_all
qed

lemma example_okx_run_returns:
  "example_okx_run = Inr (fst (projr example_okx_run), snd (projr example_okx_run))"
proof -
  have "\<not> isl example_okx_run" by code_simp
  then show ?thesis by (cases example_okx_run) simp_all
qed

text \<open>
  Claim C5. An advertisement that \<open>standardize_ad\<close> of the Binance adapter returns for
  the side \<open>BUY\<close> or \<open>SELL\<close>, and one that \<open>standardize_ad\<close> of the OKX adapter
  returns, has \<open>trade_type\<close> \<open>BUY\<close> or \<open>SELL\<close> and no premium. So has every
  advertisement in the list that a collection run of either adapter returns, for any
  responses of the platform and any country code: the run standardizes with its two sides
  only, and saving changes neither field.
\<close>

theorem standardized_ads_two_valued:
  "((side = ''BUY'' \<or> side = ''SELL'')
      \<and> binance_standardize_ad B now ad_data code side = Inr a \<longrightarrow>
      (ad.trade_type a = ''BUY'' \<or> ad.trade_type a = ''SELL'') \<and> ad.premium_pct a = None)
   \<and> (okx_standardize_ad B now ad_data code side = Inr a \<longrightarrow>
      (ad.trade_type a = ''BUY'' \<or> ad.trade_type a = ''SELL'') \<and> ad.premium_pct a = None)
   \<and> (binance_collect_country_data B now profiles get_ads store code asset_name save_to_csv
         = Inr (ads, store') \<longrightarrow>
       (\<forall>x\<in>set ads. (ad.trade_type x = ''BUY'' \<or> ad.trade_type x = ''SELL'')
          \<and> ad.premium_pct x = None))
   \<and> (okx_collect_country_data B now profiles get_ads store code asset_name save_to_csv
         = Inr (ads, store') \<longrightarrow>
       (\<forall>x\<in>set ads. (ad.trade_type x = ''BUY'' \<or> ad.trade_type x = ''SELL'')
          \<and> ad.premium_pct x = None))"
proof -
  have 1: "(ad.trade_type a = ''BUY'' \<or> ad.trade_type a = ''SELL'') \<and> ad.premium_pct a = None"
    if "(side = ''BUY'' \<or> side = ''SELL'')
      \<and> binance_standardize_ad B now ad_data code side = Inr a"
    using that binance_standardize_ad_fields [of B now ad_data code side a] by auto
  have 2: "(ad.trade_type a = ''BUY'' \<or> ad.trade_type a = ''SELL'') \<and> ad.premium_pct a = None"
    if "okx_standardize_ad B now ad_data code side = Inr a"
    using that okx_standardize_ad_fields [of B now ad_data code side a] by auto
  have 3: "\<forall>x\<in>set ads. (ad.trade_type x = ''BUY'' \<or> ad.trade_type x = ''SELL'')
          \<and> ad.premium_pct x = None"
    if "binance_collect_country_data B now profiles get_ads store code asset_name save_to_csv
         = Inr (ads, store')"
    using that binance_collect_outcome unfolding run_outcome_def by blast
  have 4: "\<forall>x\<in>set ads. (ad.trade_type x = ''BUY'' \<or> ad.trade_type x = ''SELL'')
          \<and> ad.premium_pct x = None"
    if "okx_collect_country_data B now profiles get_ads store code asset_name save_to_csv
         = Inr (ads, store')"
    using that okx_collect_outcome unfolding run_outcome_def by blast
  show ?thesis
    using 1 2 3 4 by blast
qed

text \<open>
  The runs on the example responses (three buy and two sell advertisements from Binance,
  one of each from OKX) and the standardization of an empty payload.
\<close>

theorem standardized_ads_two_valued_witness:
  "map ad.trade_type (fst (projr example_run)) = [''BUY'', ''BUY'', ''BUY'', ''SELL'', ''SELL'']
   \<and> list_all (\<lambda>x. (ad.trade_type x = ''BUY'' \<or> ad.trade_type x = ''SELL'')
        \<and> ad.premium_pct x = None) (fst (projr example_run))
   \<and> map ad.trade_type (fst (projr example_okx_run)) = [''BUY'', ''SELL'']
   \<and> list_all (\<lambda>x. (ad.trade_type x = ''BUY'' \<or> ad.trade_type x = ''SELL'')
        \<and> ad.premium_pct x = None) (fst (projr example_okx_run))
   \<and> map_sum id (\<lambda>x. (ad.trade_type x, ad.premium_pct x))
        (binance_standardize_ad plain_builtins ''2025-07-29T12:00:00'' (PDict []) ''SD'' ''BUY'')
       = Inr (''BUY'', None)
   \<and> map_sum id (\<lambda>x. (ad.trade_type x, ad.premium_pct x))
        (okx_standardize_ad plain_builtins ''2025-07-29T12:00:00'' (PDict []) ''SD'' ''sell'')
       = Inr (''SELL'', None)"
proof -
  let ?b = "binance_standardize_ad plain_builtins ''2025-07-29T12:00:00'' (PDict []) ''SD'' ''BUY''"
  let ?o = "okx_standardize_ad plain_builtins ''2025-07-29T12:00:00'' (PDict []) ''SD'' ''sell''"
  have "\<forall>x\<in>set (fst (projr example_run)). (ad.trade_type x = ''BUY'' \<or> ad.trade_type x = ''SELL'')
          \<and> ad.premium_pct x = None"
    using standardized_ads_two_valued [where B = plain_builtins
        and now = "''2025-07-29T12:00:00''" and profiles = "[sudan, venezuela]"
        and get_ads = example_get_ads and store = empty_store and code = "''sd''"
        and asset_name = "''USDT''" and save_to_csv = True
        and ads = "fst (projr example_run)" and store' = "snd (projr example_run)"]
      example_run_returns
    unfolding example_run_def by blast
  moreover have "\<forall>x\<in>set (fst (projr example_okx_run)).
      (ad.trade_type x = ''BUY'' \<or> ad.trade_type x = ''SELL'') \<and> ad.premium_pct x = None"
    using standardized_ads_two_valued [where B = plain_builtins
        and now = "''2025-07-29T12:00:00''" and profiles = "[sudan, venezuela]"
        and get_ads = example_okx_get_ads and store = empty_store and code = "''sd''"
        and asset_name = "''USDT''" and save_to_csv = True
        and ads = "fst (projr example_okx_run)" and store' = "snd (projr example_okx_run)"]
      example_okx_run_returns
    unfolding example_okx_run_def by blast
  moreover have "map ad.trade_type (fst (projr example_run))
      = [''BUY'', ''BUY'', ''BUY'', ''SELL'', ''SELL'']"
    by code_simp
  moreover have "map ad.trade_type (fst (projr example_okx_run)) = [''BUY'', ''SELL'']"
    by code_simp
  moreover have "map_sum id (\<lambda>x. (ad.trade_type x, ad.premium_pct x)) ?b = Inr (''BUY'', None)"
  proof -
    have "\<not> isl ?b" by code_simp
    then obtain x where x: "?b = Inr x" by (cases ?b) simp_all
    have "''BUY'' = ''BUY'' \<or> ''BUY'' = ''SELL''" by simp
    then have "ad.premium_pct x = None"
      using standardized_ads_two_valued [where B = plain_builtins
          and now = "''2025-07-29T12:00:00''" and ad_data = "PDict []" and code = "''SD''"
          and side = "''BUY''" and a = x] x
      by blast
    moreover have "map_sum id ad.trade_type ?b = Inr ''BUY''" by code_simp
    ultimately show ?thesis
      by (simp add: x)
  qed
  moreover have "map_sum id (\<lambda>x. (ad.trade_type x, ad.premium_pct x)) ?o = Inr (''SELL'', None)"
  proof -
    have "\<not> isl ?o" by code_simp
    then obtain x where x: "?o = Inr x" by (cases ?o) simp_all
    have "ad.premium_pct x = None"
      using standardized_ads_two_valued [where B = plain_builtins
          and now = "''2025-07-29T12:00:00''" and ad_data = "PDict []" and code = "''SD''"
          and side = "''sell''" and a = x] x
      by blast
    moreover have "map_sum id ad.trade_type ?o = Inr ''SELL''" by code_simp
    ultimately show ?thesis
      by (simp add: x)
  qed
  ultimately show ?thesis by (simp add: list_all_iff)
qed

text \<open>
  Claim C6. A collection run of either adapter that returns appends to the collection log
  one entry when it saves a list that is not empty, and none otherwise. In the entry
  \<open>ads_collected\<close> is \<open>buy_ads\<close> plus \<open>sell_ads\<close>; it is the length of the list returned,
  and \<open>buy_ads\<close> and \<open>sell_ads\<close> are the numbers of \<open>BUY\<close> and \<open>SELL\<close> advertisements
  in it. (A run that raises has written no entry: the log is written after the loops.)
\<close>

theorem collection_log_counts_add_up:
  "(binance_collect_country_data B now profiles get_ads store code asset_name save_to_csv
       = Inr (ads, store') \<longrightarrow>
     (\<exists>new. collection_log store' = collection_log store @ new
        \<and> length new = (if save_to_csv \<and> ads \<noteq> [] then 1 else 0)
        \<and> (\<forall>e\<in>set new. log_entry.ads_collected e = buy_ads e + sell_ads e
              \<and> log_entry.ads_collected e = length ads
              \<and> buy_ads e = length (filter (\<lambda>a. ad.trade_type a = ''BUY'') ads)
              \<and> sell_ads e = length (filter (\<lambda>a. ad.trade_type a = ''SELL'') ads))))
   \<and> (okx_collect_country_data B now profiles get_ads store code asset_name save_to_csv
       = Inr (ads, store') \<longrightarrow>
     (\<exists>new. collection_log store' = collection_log store @ new
        \<and> length new = (if save_to_csv \<and> ads \<noteq> [] then 1 else 0)
        \<and> (\<forall>e\<in>set new. log_entry.ads_collected e = buy_ads e + sell_ads e
              \<and> log_entry.ads_collected e = length ads
              \<and> buy_ads e = length (filter (\<lambda>a. ad.trade_type a = ''BUY'') ads)
              \<and> sell_ads e = length (filter (\<lambda>a. ad.trade_type a = ''SELL'') ads))))"
proof -
  have 1: "\<exists>new. collection_log store' = collection_log store @ new
        \<and> length new = (if save_to_csv \<and> ads \<noteq> [] then 1 else 0)
        \<and> (\<forall>e\<in>set new. log_entry.ads_collected e = buy_ads e + sell_ads e
              \<and> log_entry.ads_collected e = length ads
              \<and> buy_ads e = length (filter (\<lambda>a. ad.trade_type a = ''BUY'') ads)
              \<and> sell_ads e = length (filter (\<lambda>a. ad.trade_type a = ''SELL'') ads))"
    if "run_outcome pn save_to_csv store ads store'" for pn
    using that unfolding run_outcome_def by blast
  show ?thesis
  proof (intro conjI impI)
    assume a: "binance_collect_country_data B now profiles get_ads store code asset_name
        save_to_csv = Inr (ads, store')"
    show "\<exists>new. collection_log store' = collection_log store @ new
        \<and> length new = (if save_to_csv \<and> ads \<noteq> [] then 1 else 0)
        \<and> (\<forall>e\<in>set new. log_entry.ads_collected e = buy_ads e + sell_ads e
              \<and> log_entry.ads_collected e = length ads
              \<and> buy_ads e = length (filter (\<lambda>a. ad.trade_type a = ''BUY'') ads)
              \<and> sell_ads e = length (filter (\<lambda>a. ad.trade_type a = ''SELL'') ads))"
      by (rule 1 [OF binance_collect_outcome [OF a]])
  next
    assume a: "okx_collect_country_data B now profiles get_ads store code asset_name
        save_to_csv = Inr (ads, store')"
    show "\<exists>new. collection_log store' = collection_log store @ new
        \<and> length new = (if save_to_csv \<and> ads \<noteq> [] then 1 else 0)
        \<and> (\<forall>e\<in>set new. log_entry.ads_collected e = buy_ads e + sell_ads e
              \<and> log_entry.ads_collected e = length ads
              \<and> buy_ads e = length (filter (\<lambda>a. ad.trade_type a = ''BUY'') ads)
              \<and> sell_ads e = length (filter (\<lambda>a. ad.trade_type a = ''SELL'') ads))"
      by (rule 1 [OF okx_collect_outcome [OF a]])
  qed
qed

text \<open>The entries of the runs on the example responses: 5 = 3 + 2 and 2 = 1 + 1.\<close>

theorem collection_log_counts_add_up_witness:
  "map (\<lambda>e. (log_entry.ads_collected e, buy_ads e, sell_ads e))
       (collection_log (snd (projr example_run))) = [(5, 3, 2)]
   \<and> list_all (\<lambda>e. log_entry.ads_collected e = buy_ads e + sell_ads e)
       (collection_log (snd (projr example_run)))
   \<and> map (\<lambda>e. (log_entry.ads_collected e, buy_ads e, sell_ads e))
       (collection_log (snd (projr example_okx_run))) = [(2, 1, 1)]
   \<and> list_all (\<lambda>e. log_entry.ads_collected e = buy_ads e + sell_ads e)
       (collection_log (snd (projr example_okx_run)))"
proof -
  obtain new where
    n: "collection_log (snd (projr example_run)) = collection_log empty_store @ new"
      "\<forall>e\<in>set new. log_entry.ads_collected e = buy_ads e + sell_ads e
              \<and> log_entry.ads_collected e = length (fst (projr example_run))
              \<and> buy_ads e = length (filter (\<lambda>a. ad.trade_type a = ''BUY'') (fst (projr example_run)))
              \<and> sell_ads e = length (filter (\<lambda>a. ad.trade_type a = ''SELL'') (fst (projr example_run)))"
    using collection_log_counts_add_up [where B = plain_builtins
        and now = "''2025-07-29T12:00:00''" and profiles = "[sudan, venezuela]"
        and get_ads = example_get_ads and store = empty_store and code = "''sd''"
        and asset_name = "''USDT''" and save_to_csv = True
        and ads = "fst (projr example_run)" and store' = "snd (projr example_run)"]
      example_run_returns
    unfolding example_run_def by blast
  obtain new2 where
    n2: "collection_log (snd (projr example_okx_run)) = collection_log empty_store @ new2"
      "\<forall>e\<in>set new2. log_entry.ads_collected e = buy_ads e + sell_ads e
              \<and> log_entry.ads_collected e = length (fst (projr example_okx_run))
              \<and> buy_ads e = length (filter (\<lambda>a. ad.trade_type a = ''BUY'') (fst (projr example_okx_run)))
              \<and> sell_ads e = length (filter (\<lambda>a. ad.trade_type a = ''SELL'') (fst (projr example_okx_run)))"
    using collection_log_counts_add_up [where B = plain_builtins
        and now = "''2025-07-29T12:00:00''" and profiles = "[sudan, venezuela]"
        and get_ads = example_okx_get_ads and store = empty_store and code = "''sd''"
        and asset_name = "''USDT''" and save_to_csv = True
        and ads = "fst (projr example_okx_run)" and store' = "snd (projr example_okx_run)"]
      example_okx_run_returns
    unfolding example_okx_run_def by blast
  have e: "collection_log empty_store = []"
    by (simp add: empty_store_def)
  have "list_all (\<lambda>e. log_entry.ads_collected e = buy_ads e + sell_ads e)
       (collection_log (snd (projr example_run)))"
    using n e by (simp add: list_all_iff)
  moreover have "list_all (\<lambda>e. log_entry.ads_collected e = buy_ads e + sell_ads e)
       (collection_log (snd (projr example_okx_run)))"
    using n2 e by (simp add: list_all_iff)
  moreover have "map (\<lambda>e. (log_entry.ads_collected e, buy_ads e, sell_ads e))
       (collection_log (snd (projr example_run))) = [(5, 3, 2)]"
    by code_simp
  moreover have "map (\<lambda>e. (log_entry.ads_collected e, buy_ads e, sell_ads e))
       (collection_log (snd (projr example_okx_run))) = [(2, 1, 1)]"
    by code_simp
  ultimately show ?thesis by simp
qed

lemma map_sum_and_then:
  "map_sum id g (and_then m f) = and_then m (\<lambda>x. map_sum id g (f x))"
  by (cases m) (simp_all add: and_then_def)

lemma binance_side_only:
  "map_sum id (\<lambda>a. a\<lparr>ad.trade_type := t\<rparr>) (binance_standardize_ad B now ad_data code side) =
   map_sum id (\<lambda>a. a\<lparr>ad.trade_type := t\<rparr>) (binance_standardize_ad B now ad_data code side')"
  by (simp add: binance_standardize_ad_def map_sum_and_then)

lemma okx_side_only:
  "map_sum id (\<lambda>a. a\<lparr>ad.trade_type := t\<rparr>) (okx_standardize_ad B now ad_data code side) =
   map_sum id (\<lambda>a. a\<lparr>ad.trade_type := t\<rparr>) (okx_standardize_ad B now ad_data code side')"
  by (simp add: okx_standardize_ad_def map_sum_and_then Let_def)

text \<open>
  Claim C3, as the code has it. Neither adapter rejects a side. \<open>standardize_ad\<close> of the
  OKX adapter gives \<open>BUY\<close> to a side whose lower-case form is \<open>buy\<close> and \<open>SELL\<close> to
  every other side; \<open>standardize_ad\<close> of the Binance adapter copies the side it is given.
  Whether the call raises, and every other field of its result, does not depend on the
  side.
\<close>

theorem side_mapping_as_coded:
  "(okx_standardize_ad B now ad_data code side = Inr a \<longrightarrow>
      ad.trade_type a = (if py_lower side = ''buy'' then ''BUY'' else ''SELL''))
   \<and> (binance_standardize_ad B now ad_data code side = Inr a \<longrightarrow> ad.trade_type a = side)
   \<and> map_sum id (\<lambda>a. a\<lparr>ad.trade_type := t\<rparr>) (okx_standardize_ad B now ad_data code side) =
       map_sum id (\<lambda>a. a\<lparr>ad.trade_type := t\<rparr>) (okx_standardize_ad B now ad_data code side')
   \<and> map_sum id (\<lambda>a. a\<lparr>ad.trade_type := t\<rparr>) (binance_standardize_ad B now ad_data code side) =
       map_sum id (\<lambda>a. a\<lparr>ad.trade_type := t\<rparr>) (binance_standardize_ad B now ad_data code side')"
  using okx_standardize_ad_fields [of B now ad_data code side a]
    binance_standardize_ad_fields [of B now ad_data code side a]
    okx_side_only [of t B now ad_data code side side']
    binance_side_only [of t B now ad_data code side side']
  by blast

text \<open>The side \<open>Buy\<close> on OKX and the side \<open>SELL\<close> on Binance.\<close>

theorem side_mapping_as_coded_witness:
  "map_sum id ad.trade_type
     (okx_standardize_ad plain_builtins ''2025-07-29T12:00:00'' (PDict [(''price'', PInt 1049)])
        ''SD'' ''Buy'') = Inr ''BUY''
   \<and> map_sum id ad.trade_type
     (binance_standardize_ad plain_builtins ''2025-07-29T12:00:00'' (PDict []) ''SD'' ''SELL'')
       = Inr ''SELL''"
proof -
  let ?o = "okx_standardize_ad plain_builtins ''2025-07-29T12:00:00''
      (PDict [(''price'', PInt 1049)]) ''SD'' ''Buy''"
  let ?b = "binance_standardize_ad plain_builtins ''2025-07-29T12:00:00'' (PDict []) ''SD'' ''SELL''"
  have "\<not> isl ?o" "\<not> isl ?b" by code_simp+
  then have o: "?o = Inr (projr ?o)" and b: "?b = Inr (projr ?b)"
    by simp_all
  have "ad.trade_type (projr ?o) = (if py_lower ''Buy'' = ''buy'' then ''BUY'' else ''SELL'')"
    using side_mapping_as_coded [where B = plain_builtins and now = "''2025-07-29T12:00:00''"
        and ad_data = "PDict [(''price'', PInt 1049)]" and code = "''SD''" and side = "''Buy''"
        and a = "projr ?o"] o
    by blast
  moreover have "py_lower ''Buy'' = ''buy''" by code_simp
  moreover have "ad.trade_type (projr ?b) = ''SELL''"
    using side_mapping_as_coded [where B = plain_builtins and now = "''2025-07-29T12:00:00''"
        and ad_data = "PDict []" and code = "''SD''" and side = "''SELL''"
        and a = "projr ?b"] b
    by blast
  ultimately have "ad.trade_type (projr ?o) = ''BUY''" "ad.trade_type (projr ?b) = ''SELL''"
    by simp_all
  then show ?thesis
    by (metis o b map_sum.simps(2))
qed

text \<open>
  Claim C3 as stated fails: for the unknown side \<open>hold\<close> the OKX adapter returns an
  advertisement of type \<open>SELL\<close> and the Binance adapter one of type \<open>hold\<close>; neither
  raises.
\<close>

theorem unknown_side_counterexample:
  "map_sum id ad.trade_type
     (okx_standardize_ad plain_builtins ''2025-07-29T12:00:00'' (PDict []) ''SD'' ''hold'')
       = Inr ''SELL''
   \<and> map_sum id ad.trade_type
     (binance_standardize_ad plain_builtins ''2025-07-29T12:00:00'' (PDict []) ''SD'' ''hold'')
       = Inr ''hold''"
  by code_simp

section \<open>Saving\<close>

text \<open>
  Claim C10, as the code has it. \<open>save_raw_ads\<close> changes two fields of the caller's
  dictionaries: it sets \<open>collection_id\<close> to the run's identifier, and it replaces
  \<open>payment_methods\<close>, when that is a list, by the list's JSON text. Every other field
  keeps its value.
\<close>

theorem save_raw_ads_frame:
  "(let cid = (case collection of
                 None \<Rightarrow> generate_collection_id store
               | Some c \<Rightarrow> if c = [] then generate_collection_id store else c);
        saved = fst (snd (save_raw_ads B store ads platform_name code collection))
    in map ad.collection_id saved = map (\<lambda>a. Some cid) ads
     \<and> map ad.payment_methods saved =
         map (\<lambda>a. case ad.payment_methods a of
                     PList xs \<Rightarrow> PStr (json_dumps B (PList xs))
                   | v \<Rightarrow> v) ads
     \<and> map ad.platform saved = map ad.platform ads
     \<and> map ad.timestamp saved = map ad.timestamp ads
     \<and> map asset saved = map asset ads
     \<and> map ad.fiat saved = map ad.fiat ads
     \<and> map price saved = map price ads
     \<and> map min_amount saved = map min_amount ads
     \<and> map max_amount saved = map max_amount ads
     \<and> map available_amount saved = map available_amount ads
     \<and> map trade_type saved = map trade_type ads
     \<and> map ad.country_code saved = map ad.country_code ads
     \<and> map advertiser_name saved = map advertiser_name ads
     \<and> map completion_rate saved = map completion_rate ads
     \<and> map order_count saved = map order_count ads
     \<and> map ad_id saved = map ad_id ads
     \<and> map premium_pct saved = map premium_pct ads)"
  by (simp add: save_raw_ads_def Let_def mark_ad_def o_def split: pyval.split cong: map_cong)

text \<open>
  Claim C10 as stated fails: after saving, \<open>payment_methods\<close> of the caller's dictionary
  is a text, not the list it was after standardization.
\<close>

theorem payment_methods_overwritten_counterexample:
  "map ad.payment_methods
     (fst (snd (save_raw_ads plain_builtins empty_store [example_ad] ''binance'' ''SD''
                  (Some ''collection_20250729_120000''))))
     = [PStr (''['' @ [CHR 0x22] @ ''MTN'' @ [CHR 0x22] @ '', '' @ [CHR 0x22] @ ''Bank Transfer''
               @ [CHR 0x22] @ '']'')]
   \<and> ad.payment_methods example_ad = PList [PStr ''MTN'', PStr ''Bank Transfer'']"
  by code_simp

section \<open>Orchestrator\<close>

lemma cell_results_codes: "map fst (fst (cell_results profiles scraper countries w)) = countries"
proof (induction countries arbitrary: w)
  case Nil
  then show ?case by simp
next
  case (Cons code rest)
  obtain r w1 where r: "run_cell profiles scraper code w = (r, w1)"
    by (cases "run_cell profiles scraper code w")
  obtain rs w2 where rs: "cell_results profiles scraper rest w1 = (rs, w2)"
    by (cases "cell_results profiles scraper rest w1")
  show ?case
    using Cons.IH [of w1] r rs by simp
qed

lemma cell_errors_length: "length (cell_errors pn rs) = length (filter (\<lambda>r. isl (snd r)) rs)"
  by (induction pn rs rule: cell_errors.induct) auto

lemma country_loop_results:
  "country_loop profiles pn scraper countries (acc, w) =
     (case cell_results profiles scraper countries w of
        (rs, w') \<Rightarrow>
          (acc\<lparr>platform_ads := platform_ads acc + cell_ads rs,
               platform_countries := platform_countries acc + cell_successes rs,
               acc_errors := acc_errors acc @ cell_errors pn rs\<rparr>, w'))"
proof (induction countries arbitrary: acc w)
  case Nil
  then show ?case by simp
next
  case (Cons code rest)
  obtain r w1 where r: "run_cell profiles scraper code w = (r, w1)"
    by (cases "run_cell profiles scraper code w")
  obtain rs w2 where rs: "cell_results profiles scraper rest w1 = (rs, w2)"
    by (cases "cell_results profiles scraper rest w1")
  show ?case
  proof (cases r)
    case (Inl e)
    then show ?thesis using r rs by (simp add: Cons.IH)
  next
    case (Inr ads)
    then show ?thesis using r rs by (simp add: Cons.IH)
  qed
qed

lemma platform_loop_results:
  "platform_loop profiles scrapers countries (s, w) =
     (case platform_results profiles scrapers countries w of
        (prs, w') \<Rightarrow>
          (s\<lparr>platform_stats :=
                 foldl (\<lambda>ps pr. AList.update (fst pr) (stat_of (snd pr)) ps) (platform_stats s) prs,
              total_ads_collected := total_ads_collected s + sum_list (map (\<lambda>pr. cell_ads (snd pr)) prs),
              errors := errors s @ concat (map (\<lambda>pr. cell_errors (fst pr) (snd pr)) prs)\<rparr>, w'))"
proof (induction scrapers arbitrary: s w)
  case Nil
  then show ?case by simp
next
  case (Cons p rest)
  obtain pn scraper where p: "p = (pn, scraper)" by (cases p)
  obtain rs w1 where rs: "cell_results profiles scraper countries w = (rs, w1)"
    by (cases "cell_results profiles scraper countries w")
  obtain prs w2 where prs: "platform_results profiles rest countries w1 = (prs, w2)"
    by (cases "platform_results profiles rest countries w1")
  show ?case
    using rs prs unfolding p
    by (simp add: country_loop_results Cons.IH stat_of_def)
qed

lemma foldl_update_lookup:
  assumes "distinct (map fst prs)" "(pn, rs) \<in> set prs"
  shows "map_of (foldl (\<lambda>ps pr. AList.update (fst pr) (f (snd pr)) ps) ps0 prs) pn = Some (f rs)"
  using assms
proof (induction prs arbitrary: ps0 rule: rev_induct)
  case Nil
  then show ?case by simp
next
  case (snoc x xs)
  show ?case
  proof (cases "x = (pn, rs)")
    case True
    then show ?thesis by (simp add: update_conv')
  next
    case False
    then have "(pn, rs) \<in> set xs" "fst x \<noteq> pn"
      using snoc.prems by (auto simp: rev_image_eqI)
    then show ?thesis
      using snoc by (simp add: update_conv')
  qed
qed

lemma platform_results_names:
  "map fst (fst (platform_results profiles scrapers countries w)) = map fst scrapers"
proof (induction scrapers arbitrary: w)
  case Nil
  then show ?case by simp
next
  case (Cons p rest)
  obtain pn scraper where p: "p = (pn, scraper)" by (cases p)
  obtain rs w1 where rs: "cell_results profiles scraper countries w = (rs, w1)"
    by (cases "cell_results profiles scraper countries w")
  obtain prs w2 where prs: "platform_results profiles rest countries w1 = (prs, w2)"
    by (cases "platform_results profiles rest countries w1")
  show ?case
    using Cons.IH [of w1] rs prs unfolding p by simp
qed

lemma platform_results_codes:
  "(pn, rs) \<in> set (fst (platform_results profiles scrapers countries w)) \<Longrightarrow> map fst rs = countries"
proof (induction scrapers arbitrary: w)
  case Nil
  then show ?case by simp
next
  case (Cons p rest)
  obtain pn' scraper where p: "p = (pn', scraper)" by (cases p)
  obtain rs' w1 where rs: "cell_results profiles scraper countries w = (rs', w1)"
    by (cases "cell_results profiles scraper countries w")
  obtain prs w2 where prs: "platform_results profiles rest countries w1 = (prs, w2)"
    by (cases "platform_results profiles rest countries w1")
  from Cons.prems have "(pn, rs) = (pn', rs') \<or> (pn, rs) \<in> set prs"
    using rs prs unfolding p by simp
  then show ?case
  proof
    assume "(pn, rs) = (pn', rs')"
    then show ?thesis using cell_results_codes [of profiles scraper countries w] rs by simp
  next
    assume "(pn, rs) \<in> set prs"
    then show ?thesis using Cons.IH [of w1] prs by simp
  qed
qed

text \<open>
  Claim C9. \<open>collect_current_snapshot\<close> is total: whatever the cells do, it returns a
  summary. Over the countries of the run (the list given, or all supported countries when
  none is given) \<open>countries_processed\<close> is the number of countries; every cell is run,
  one for each platform and country; the errors are the message of the exchange-rate step,
  if it failed, followed by one message for each cell that raised, in order (an unknown
  country raises in the cell's profile lookup); the total is the number of advertisements
  of the cells that returned; and, platform names being distinct, the statistics of each
  platform are the advertisements of its cells that returned and the number of those that
  returned a list that is not empty.
\<close>

theorem snapshot_survives_failing_cells:
  "(let countries' =
          (if countries = [] then map profile.country_code (list_supported_countries profiles)
           else countries);
        failure = fst (rates w);
        prs = fst (platform_results profiles scrapers countries' (snd (rates w)));
        s = fst (collect_current_snapshot now profiles scrapers rates countries w)
    in countries_processed s = length countries'
     \<and> errors s =
         (case failure of
            None \<Rightarrow> []
          | Some e \<Rightarrow> [''Exchange rate collection failed: '' @ exn_str e])
         @ concat (map (\<lambda>pr. cell_errors (fst pr) (snd pr)) prs)
     \<and> map fst prs = map fst scrapers
     \<and> list_all (\<lambda>pr. map fst (snd pr) = countries'
           \<and> length (cell_errors (fst pr) (snd pr)) = length (filter (\<lambda>r. isl (snd r)) (snd pr))) prs
     \<and> total_ads_collected s = sum_list (map (\<lambda>pr. cell_ads (snd pr)) prs)
     \<and> (distinct (map fst scrapers) \<longrightarrow>
          list_all (\<lambda>pr. map_of (platform_stats s) (fst pr) = Some (stat_of (snd pr))) prs))"
proof -
  define countries' where "countries' =
          (if countries = [] then map profile.country_code (list_supported_countries profiles)
           else countries)"
  obtain failure w1 where r: "rates w = (failure, w1)" by (cases "rates w")
  obtain prs w2 where p: "platform_results profiles scrapers countries' w1 = (prs, w2)"
    by (cases "platform_results profiles scrapers countries' w1")
  define s where "s = fst (collect_current_snapshot now profiles scrapers rates countries w)"
  have s: "s = \<lparr>summary.timestamp = now, countries_processed = length countries',
       total_ads_collected = sum_list (map (\<lambda>pr. cell_ads (snd pr)) prs),
       platform_stats = foldl (\<lambda>ps pr. AList.update (fst pr) (stat_of (snd pr)) ps) [] prs,
       errors = (case failure of
            None \<Rightarrow> []
          | Some e \<Rightarrow> [''Exchange rate collection failed: '' @ exn_str e])
         @ concat (map (\<lambda>pr. cell_errors (fst pr) (snd pr)) prs)\<rparr>"
    unfolding s_def collect_current_snapshot_def countries'_def [symmetric] Let_def
    using r p by (simp add: platform_loop_results split: option.split)
  have names: "map fst prs = map fst scrapers"
    using platform_results_names [of profiles scrapers countries' w1] p by simp
  have cells: "list_all (\<lambda>pr. map fst (snd pr) = countries'
           \<and> length (cell_errors (fst pr) (snd pr)) = length (filter (\<lambda>r. isl (snd r)) (snd pr))) prs"
    unfolding list_all_iff
  proof
    fix pr assume "pr \<in> set prs"
    then have "(fst pr, snd pr) \<in> set (fst (platform_results profiles scrapers countries' w1))"
      using p by simp
    then have "map fst (snd pr) = countries'"
      by (rule platform_results_codes)
    then show "map fst (snd pr) = countries'
           \<and> length (cell_errors (fst pr) (snd pr)) = length (filter (\<lambda>r. isl (snd r)) (snd pr))"
      by (simp add: cell_errors_length)
  qed
  have stats: "list_all (\<lambda>pr. map_of (platform_stats s) (fst pr) = Some (stat_of (snd pr))) prs"
    if "distinct (map fst scrapers)"
    unfolding list_all_iff
  proof
    fix pr assume pr: "pr \<in> set prs"
    have "distinct (map fst prs)" using that names by simp
    moreover have "(fst pr, snd pr) \<in> set prs" using pr by simp
    ultimately show "map_of (platform_stats s) (fst pr) = Some (stat_of (snd pr))"
      unfolding s by (simp add: foldl_update_lookup)
  qed
  show ?thesis
    unfolding Let_def countries'_def [symmetric] s_def [symmetric]
    using r p names cells stats by (simp add: s)
qed

text \<open>
  The example snapshot: four countries processed, three errors (the rates, the unknown
  country, the malformed response), ten advertisements from the two cells that returned.
\<close>

theorem snapshot_survives_failing_cells_witness:
  "countries_processed (fst example_snapshot) = 4
   \<and> errors (fst example_snapshot) =
       [''Exchange rate collection failed: timed out'',
        ''binance failed for XX: No profile found for country code: XX'',
        ''binance failed for VE: object has no attribute get'']
   \<and> map_of (platform_stats (fst example_snapshot)) ''binance'' =
       Some \<lparr>platform_stat.ads_collected = 10, countries_successful = 2\<rparr>
   \<and> total_ads_collected (fst example_snapshot) = 10"
proof -
  let ?scrapers = "[(''binance'',
         Some (binance_scraper plain_builtins ''2025-07-29T12:00:00'' [sudan, venezuela]
                 failing_get_ads))]"
  let ?prs = "fst (platform_results [sudan, venezuela] ?scrapers [''SD'', ''XX'', ''VE'', ''sd'']
                 empty_store)"
  note T = snapshot_survives_failing_cells [where countries = "[''SD'', ''XX'', ''VE'', ''sd'']"
        and profiles = "[sudan, venezuela]" and now = "''2025-07-29T12:00:00''"
        and rates = "\<lambda>w. (Some (RequestException ''timed out''), w)" and w = empty_store
        and scrapers = ?scrapers, unfolded Let_def, folded example_snapshot_def]
  have d: "distinct (map fst ?scrapers)" by simp
  have n: "countries_processed (fst example_snapshot) = length [''SD'', ''XX'', ''VE'', ''sd'']"
    using T by simp
  have st: "list_all (\<lambda>pr. map_of (platform_stats (fst example_snapshot)) (fst pr)
      = Some (stat_of (snd pr))) ?prs"
    using T d by simp
  have "map (\<lambda>pr. (fst pr, stat_of (snd pr))) ?prs =
      [(''binance'', \<lparr>platform_stat.ads_collected = 10, countries_successful = 2\<rparr>)]"
    by code_simp
  then obtain pr where pr: "?prs = [pr]" "fst pr = ''binance''"
    "stat_of (snd pr) = \<lparr>platform_stat.ads_collected = 10, countries_successful = 2\<rparr>"
    by (cases ?prs) auto
  have s: "map_of (platform_stats (fst example_snapshot)) ''binance'' =
       Some \<lparr>platform_stat.ads_collected = 10, countries_successful = 2\<rparr>"
    using st unfolding pr(1) by (simp add: pr(2,3))
  have "errors (fst example_snapshot) =
       [''Exchange rate collection failed: timed out'',
        ''binance failed for XX: No profile found for country code: XX'',
        ''binance failed for VE: object has no attribute get'']"
    by code_simp
  moreover have "total_ads_collected (fst example_snapshot) = 10"
    by code_simp
  ultimately show ?thesis using n s by simp
qed

section \<open>Payment methods through the store\<close>

















section \<open>Correlation\<close>







end
